theory Spec2Isabelle
  imports Complex_Main
begin

section \<open>JavaScript strings and numbers\<close>

text \<open>
  Strings are \<open>string\<close> (lists of characters). Case conversion, \<open>\w\<close> and \<open>\s\<close> are
  modelled on the ASCII range; every other character is left alone by case conversion
  and is neither a word character nor white space. Numbers are exact rationals: the
  program compares them with constants, multiplies by 100 or 255 and rounds, and
  binary floating-point error is not part of the model. An optional attribute is an
  \<open>option\<close>; \<open>undefined\<close> is \<open>None\<close>.
\<close>

definition upperAlphabet :: string where
  "upperAlphabet = ''ABCDEFGHIJKLMNOPQRSTUVWXYZ''"

definition lowerAlphabet :: string where
  "lowerAlphabet = ''abcdefghijklmnopqrstuvwxyz''"

definition decimalDigits :: string where
  "decimalDigits = ''0123456789''"

definition hexDigits :: string where
  "hexDigits = ''0123456789abcdef''"

definition lowerChar :: "char \<Rightarrow> char" where
  "lowerChar c = (case map_of (zip upperAlphabet lowerAlphabet) c of Some d \<Rightarrow> d | None \<Rightarrow> c)"

definition upperChar :: "char \<Rightarrow> char" where
  "upperChar c = (case map_of (zip lowerAlphabet upperAlphabet) c of Some d \<Rightarrow> d | None \<Rightarrow> c)"

definition toLowerCase :: "string \<Rightarrow> string" where
  "toLowerCase s = map lowerChar s"

definition toUpperCase :: "string \<Rightarrow> string" where
  "toUpperCase s = map upperChar s"

fun startsWith :: "string \<Rightarrow> string \<Rightarrow> bool" where
  "startsWith s [] = True"
| "startsWith [] (p # ps) = False"
| "startsWith (c # cs) (p # ps) = (c = p \<and> startsWith cs ps)"

fun includesStr :: "string \<Rightarrow> string \<Rightarrow> bool" where
  "includesStr [] sub = (sub = [])"
| "includesStr (c # cs) sub = (startsWith (c # cs) sub \<or> includesStr cs sub)"

fun join :: "string \<Rightarrow> string list \<Rightarrow> string" where
  "join sep [] = []"
| "join sep [x] = x"
| "join sep (x # y # ys) = x @ sep @ join sep (y # ys)"

definition repeat :: "string \<Rightarrow> nat \<Rightarrow> string" where
  "repeat s k = concat (replicate k s)"

definition slice :: "string \<Rightarrow> nat \<Rightarrow> nat \<Rightarrow> string" where
  "slice s a b = take (b - a) (drop a s)"

definition padStart2 :: "string \<Rightarrow> string" where
  "padStart2 s = replicate (2 - length s) (CHR ''0'') @ s"

text \<open>The character classes of the regular expressions: \<open>\s\<close>, \<open>\w\<close>, and the line
  terminators that \<open>.\<close> does not match.\<close>

definition isSpace :: "char \<Rightarrow> bool" where
  "isSpace c = (c \<in> set [CHR '' '', CHR 0x09, CHR 0x0A, CHR 0x0B, CHR 0x0C, CHR 0x0D])"

definition isWordChar :: "char \<Rightarrow> bool" where
  "isWordChar c = (c \<in> set (upperAlphabet @ lowerAlphabet @ decimalDigits @ ''_''))"

definition isAlnum :: "char \<Rightarrow> bool" where
  "isAlnum c = (c \<in> set (upperAlphabet @ lowerAlphabet @ decimalDigits))"

definition isLineTerminator :: "char \<Rightarrow> bool" where
  "isLineTerminator c = (c = CHR 0x0A \<or> c = CHR 0x0D)"

text \<open>\<open>s.replace(/\s+/g, '-')\<close>: every maximal run of white space becomes one hyphen.\<close>

fun replaceSpacesFrom :: "bool \<Rightarrow> string \<Rightarrow> string" where
  "replaceSpacesFrom inRun [] = []"
| "replaceSpacesFrom inRun (c # cs) =
     (if isSpace c then
        (if inRun then replaceSpacesFrom True cs else CHR ''-'' # replaceSpacesFrom True cs)
      else c # replaceSpacesFrom False cs)"

definition replaceSpaces :: "string \<Rightarrow> string" where
  "replaceSpaces s = replaceSpacesFrom False s"

definition trim :: "string \<Rightarrow> string" where
  "trim s = rev (dropWhile isSpace (rev (dropWhile isSpace s)))"

text \<open>\<open>Math.round\<close> rounds half up. \<open>n.toString(radix)\<close> is used with the radices 10
  and 16 only; the test \<open>radix < 2\<close> is there for the recursion to end on every input.\<close>

definition Math_round :: "rat \<Rightarrow> int" where
  "Math_round x = \<lfloor>x + 1 / 2\<rfloor>"

fun natToString :: "nat \<Rightarrow> nat \<Rightarrow> string" where
  "natToString radix n =
     (if radix < 2 \<or> n < radix then [hexDigits ! n]
      else natToString radix (n div radix) @ [hexDigits ! (n mod radix)])"

declare natToString.simps [simp del]

definition toStringRadix :: "nat \<Rightarrow> int \<Rightarrow> string" where
  "toStringRadix radix i =
     (if i < 0 then CHR ''-'' # natToString radix (nat (- i)) else natToString radix (nat i))"

text \<open>\<open>parseInt(s, 16)\<close>: leading white space, an optional sign, an optional \<open>0x\<close>, then
  the longest run of hexadecimal digits; \<open>None\<close> is \<open>NaN\<close>.\<close>

definition hexValue :: "char \<Rightarrow> nat option" where
  "hexValue c =
     map_of (zip (hexDigits @ ''ABCDEF'')
               [0, 1, 2, 3, 4, 5, 6, 7, 8, 9, 10, 11, 12, 13, 14, 15, 10, 11, 12, 13, 14, 15]) c"

fun hexRun :: "nat \<Rightarrow> string \<Rightarrow> nat" where
  "hexRun acc [] = acc"
| "hexRun acc (c # cs) = (case hexValue c of None \<Rightarrow> acc | Some v \<Rightarrow> hexRun (16 * acc + v) cs)"

definition parseHexDigits :: "string \<Rightarrow> nat option" where
  "parseHexDigits s =
     (let t = (if startsWith s ''0x'' \<or> startsWith s ''0X'' then drop 2 s else s)
      in case t of [] \<Rightarrow> None
         | c # cs \<Rightarrow> (if hexValue c = None then None else Some (hexRun 0 t)))"

definition parseInt16 :: "string \<Rightarrow> int option" where
  "parseInt16 s =
     (case dropWhile isSpace s of
        [] \<Rightarrow> None
      | c # cs \<Rightarrow>
          (if c = CHR ''-'' then map_option (\<lambda>v. - int v) (parseHexDigits cs)
           else if c = CHR ''+'' then map_option int (parseHexDigits cs)
           else map_option int (parseHexDigits (c # cs))))"

text \<open>
  An optional number used as a condition is falsy when it is \<open>undefined\<close> and when it is
  0; the definitions below write that test as the case \<open>None\<close> and the test \<open>v \<noteq> 0\<close>.
  Comparisons of an optional number with a constant: with \<open>undefined\<close> both are false.
\<close>

fun geNum :: "rat option \<Rightarrow> rat \<Rightarrow> bool" where
  "geNum None k = False"
| "geNum (Some v) k = (k \<le> v)"

fun leNum :: "rat option \<Rightarrow> rat \<Rightarrow> bool" where
  "leNum None k = False"
| "leNum (Some v) k = (v \<le> k)"

section \<open>The design node\<close>

text \<open>
  \<open>FigmaNode\<close> is an object with \<open>id\<close>, \<open>name\<close>, \<open>type\<close> and any further keys. The keys
  the program reads are the fields here. \<open>children\<close> is a list: the program only ever
  tests \<open>node.children && node.children.length > 0\<close>, so an absent list and an empty one
  behave alike. A paint's \<open>color\<close> and a shadow's \<open>offset\<close> are optional objects whose
  fields the program reads without a test, which raises a \<open>TypeError\<close> when absent.
\<close>

datatype error = TypeError

record Color =
  color_r :: rat
  color_g :: rat
  color_b :: rat

record Paint =
  paint_type :: string
  color :: "Color option"
  opacity :: "rat option"

record TypeStyle =
  fontSize :: "rat option"
  fontWeight :: "rat option"
  lineHeight :: "rat option"
  letterSpacing :: "rat option"

record Rect =
  width :: rat
  height :: rat

record Vector =
  vec_x :: rat
  vec_y :: rat

record Effect =
  effect_type :: string
  offset :: "Vector option"
  radius :: "rat option"

datatype FigmaNode = FigmaNode
  (node_id: string)
  (node_name: string)
  (node_type: string)
  (characters: "string option")
  (children: "FigmaNode list")
  (fills: "Paint list option")
  (style: "TypeStyle option")
  (absoluteBoundingBox: "Rect option")
  (cornerRadius: "rat option")
  (strokes: "Paint list option")
  (strokeWeight: "rat option")
  (effects: "Effect list option")

section \<open>Style Mapper\<close>

definition rgbToHex :: "rat \<Rightarrow> rat \<Rightarrow> rat \<Rightarrow> string" where
  "rgbToHex rv gv bv =
     ''#'' @ concat (map (\<lambda>x. padStart2 (toStringRadix 16 (Math_round x))) [rv, gv, bv])"

definition tailwindColors :: "(string \<times> string) list" where
  "tailwindColors =
     [(''#000000'', ''text-black''),
      (''#ffffff'', ''text-white''),
      (''#ef4444'', ''text-red-500''),
      (''#3b82f6'', ''text-blue-500''),
      (''#10b981'', ''text-green-500''),
      (''#f59e0b'', ''text-yellow-500''),
      (''#6366f1'', ''text-indigo-500''),
      (''#8b5cf6'', ''text-purple-500''),
      (''#ec4899'', ''text-pink-500''),
      (''#6b7280'', ''text-gray-500'')]"

text \<open>
  The distance of two colours is the square root of a sum of squares, and the loop only
  compares distances; the model keeps the sum of squares, which orders the same way.
  \<open>None\<close> as a distance is \<open>NaN\<close> (no comparison with it holds); \<open>None\<close> as the running
  minimum is \<open>Number.MAX_VALUE\<close>, above every distance.
\<close>

definition channels :: "string \<Rightarrow> int option \<times> int option \<times> int option" where
  "channels hex = (parseInt16 (slice hex 1 3), parseInt16 (slice hex 3 5), parseInt16 (slice hex 5 7))"

fun distance2 :: "int option \<times> int option \<times> int option \<Rightarrow> int option \<times> int option \<times> int option
    \<Rightarrow> int option" where
  "distance2 (Some r1, Some g1, Some b1) (Some r2, Some g2, Some b2) =
     Some ((r1 - r2)\<^sup>2 + (g1 - g2)\<^sup>2 + (b1 - b2)\<^sup>2)"
| "distance2 _ _ = None"

fun closer :: "int option \<Rightarrow> int option \<Rightarrow> bool" where
  "closer None m = False"
| "closer (Some d) None = True"
| "closer (Some d) (Some m) = (d < m)"

fun closestLoop :: "int option \<times> int option \<times> int option \<Rightarrow> (string \<times> string) list
    \<Rightarrow> int option \<times> string \<Rightarrow> int option \<times> string" where
  "closestLoop c1 [] st = st"
| "closestLoop c1 ((hex, className) # rest) (minDistance, closestColor) =
     (let distance = distance2 c1 (channels hex)
      in if closer distance minDistance then closestLoop c1 rest (distance, className)
         else closestLoop c1 rest (minDistance, closestColor))"

definition mapToTailwindColor :: "string \<Rightarrow> string" where
  "mapToTailwindColor hexColor = snd (closestLoop (channels hexColor) tailwindColors (None, ''text-black''))"

definition mapFontSizeToTailwind :: "rat \<Rightarrow> string" where
  "mapFontSizeToTailwind fs =
     (if fs \<le> 12 then ''text-xs''
      else if fs \<le> 14 then ''text-sm''
      else if fs \<le> 16 then ''text-base''
      else if fs \<le> 18 then ''text-lg''
      else if fs \<le> 20 then ''text-xl''
      else if fs \<le> 24 then ''text-2xl''
      else if fs \<le> 30 then ''text-3xl''
      else if fs \<le> 36 then ''text-4xl''
      else if fs \<le> 48 then ''text-5xl''
      else ''text-6xl'')"

definition mapFontWeightToTailwind :: "rat \<Rightarrow> string" where
  "mapFontWeightToTailwind fw =
     (if fw < 400 then ''font-light''
      else if fw < 500 then ''font-normal''
      else if fw < 600 then ''font-medium''
      else if fw < 700 then ''font-semibold''
      else ''font-bold'')"

definition mapToTailwindSize :: "rat \<Rightarrow> string" where
  "mapToTailwindSize sz =
     (if sz \<le> 4 then ''1''
      else if sz \<le> 8 then ''2''
      else if sz \<le> 12 then ''3''
      else if sz \<le> 16 then ''4''
      else if sz \<le> 20 then ''5''
      else if sz \<le> 24 then ''6''
      else if sz \<le> 32 then ''8''
      else if sz \<le> 40 then ''10''
      else if sz \<le> 48 then ''12''
      else if sz \<le> 64 then ''16''
      else if sz \<le> 80 then ''20''
      else if sz \<le> 96 then ''24''
      else if sz \<le> 128 then ''32''
      else if sz \<le> 160 then ''40''
      else if sz \<le> 192 then ''48''
      else if sz \<le> 256 then ''64''
      else if sz \<le> 320 then ''80''
      else if sz \<le> 384 then ''96''
      else ''full'')"

text \<open>
  \<open>convertFigmaStylesToTailwind\<close> pushes onto one list in six consecutive blocks. Each
  block is a function here, named after the block's comment, and the mapper appends
  their tokens in the order of the source. The first and the fifth block read
  \<open>fill.color\<close> and the sixth reads \<open>shadowEffect.offset\<close>.
\<close>

definition colorClasses :: "FigmaNode \<Rightarrow> error + string list" where
  "colorClasses figmaStyles =
     (case fills figmaStyles of
        None \<Rightarrow> Inr []
      | Some [] \<Rightarrow> Inr []
      | Some (fill # _) \<Rightarrow>
          (if paint_type fill = ''SOLID'' then
             (case color fill of
                None \<Rightarrow> Inl TypeError
              | Some c \<Rightarrow>
                  (let hexColor = rgbToHex (color_r c * 255) (color_g c * 255) (color_b c * 255);
                       tailwindColor = mapToTailwindColor hexColor
                   in Inr ([tailwindColor] @
                        (case opacity fill of
                           None \<Rightarrow> []
                         | Some op \<Rightarrow>
                             (if op \<noteq> 0 \<and> op < 1
                              then [''opacity-'' @ toStringRadix 10 (Math_round (op * 100))]
                              else [])))))
           else Inr []))"

definition typographyClasses :: "FigmaNode \<Rightarrow> string list" where
  "typographyClasses figmaStyles =
     (case style figmaStyles of
        None \<Rightarrow> []
      | Some st \<Rightarrow>
          (case fontSize st of
             None \<Rightarrow> []
           | Some fs \<Rightarrow> (if fs \<noteq> 0 then [mapFontSizeToTailwind fs] else [])) @
          (case fontWeight st of
             None \<Rightarrow> []
           | Some fw \<Rightarrow> (if fw \<noteq> 0 then [mapFontWeightToTailwind fw] else [])) @
          (case lineHeight st of
             None \<Rightarrow> []
           | Some lh \<Rightarrow>
               (if lh = 0 then []
                else if lh \<le> 1 then [''leading-none'']
                else if lh \<le> 5 / 4 then [''leading-tight'']
                else if lh \<le> 3 / 2 then [''leading-normal'']
                else if lh \<le> 7 / 4 then [''leading-relaxed'']
                else [''leading-loose''])) @
          (case letterSpacing st of
             None \<Rightarrow> []
           | Some ls \<Rightarrow>
               (if ls = 0 then []
                else if ls \<le> - (1 / 20) then [''tracking-tighter'']
                else if ls \<le> 0 then [''tracking-tight'']
                else if ls \<le> 1 / 20 then [''tracking-normal'']
                else if ls \<le> 1 / 10 then [''tracking-wide'']
                else [''tracking-wider''])))"

definition layoutClasses :: "FigmaNode \<Rightarrow> string list" where
  "layoutClasses figmaStyles =
     (case absoluteBoundingBox figmaStyles of
        None \<Rightarrow> []
      | Some box \<Rightarrow> [''w-'' @ mapToTailwindSize (width box), ''h-'' @ mapToTailwindSize (height box)])"

definition radiusClasses :: "FigmaNode \<Rightarrow> string list" where
  "radiusClasses figmaStyles =
     (case cornerRadius figmaStyles of
        None \<Rightarrow> []
      | Some cr \<Rightarrow>
          (if cr = 0 then []
           else if cr \<le> 2 then [''rounded-sm'']
           else if cr \<le> 4 then [''rounded'']
           else if cr \<le> 6 then [''rounded-md'']
           else if cr \<le> 8 then [''rounded-lg'']
           else if cr \<le> 12 then [''rounded-xl'']
           else if cr \<le> 16 then [''rounded-2xl'']
           else if cr \<le> 24 then [''rounded-3xl'']
           else [''rounded-full'']))"

text \<open>\<open>s.replace("text-", "border-")\<close> with a string pattern replaces the first occurrence.\<close>

fun replaceFirst :: "string \<Rightarrow> string \<Rightarrow> string \<Rightarrow> string" where
  "replaceFirst pat rep [] = (if pat = [] then rep else [])"
| "replaceFirst pat rep (c # cs) =
     (if startsWith (c # cs) pat then rep @ drop (length pat) (c # cs)
      else c # replaceFirst pat rep cs)"

definition borderClasses :: "FigmaNode \<Rightarrow> error + string list" where
  "borderClasses figmaStyles =
     (case strokes figmaStyles of
        None \<Rightarrow> Inr []
      | Some [] \<Rightarrow> Inr []
      | Some (stroke # _) \<Rightarrow>
          (if paint_type stroke = ''SOLID'' then
             (case color stroke of
                None \<Rightarrow> Inl TypeError
              | Some c \<Rightarrow>
                  (let hexColor = rgbToHex (color_r c * 255) (color_g c * 255) (color_b c * 255);
                       tailwindColor = replaceFirst ''text-'' ''border-'' (mapToTailwindColor hexColor)
                   in Inr ([tailwindColor] @
                        (case strokeWeight figmaStyles of
                           None \<Rightarrow> []
                         | Some sw \<Rightarrow>
                             (if sw = 0 then []
                              else if sw \<le> 1 then [''border'']
                              else if sw \<le> 2 then [''border-2'']
                              else if sw \<le> 4 then [''border-4'']
                              else [''border-8''])))))
           else Inr []))"

definition shadowTier :: "Vector \<Rightarrow> rat option \<Rightarrow> string" where
  "shadowTier off rad =
     (if vec_x off = 0 \<and> vec_y off = 1 \<and> leNum rad 2 then ''shadow-sm''
      else if vec_y off \<le> 3 \<and> leNum rad 4 then ''shadow''
      else if vec_y off \<le> 8 \<and> leNum rad 10 then ''shadow-md''
      else if vec_y off \<le> 15 \<and> leNum rad 15 then ''shadow-lg''
      else ''shadow-xl'')"

definition shadowClasses :: "FigmaNode \<Rightarrow> error + string list" where
  "shadowClasses figmaStyles =
     (case effects figmaStyles of
        None \<Rightarrow> Inr []
      | Some effs \<Rightarrow>
          (case find (\<lambda>effect. effect_type effect = ''DROP_SHADOW'') effs of
             None \<Rightarrow> Inr []
           | Some shadowEffect \<Rightarrow>
               (case offset shadowEffect of
                  None \<Rightarrow> Inl TypeError
                | Some off \<Rightarrow> Inr [shadowTier off (radius shadowEffect)])))"

definition convertFigmaStylesToTailwind :: "FigmaNode \<Rightarrow> error + string list" where
  "convertFigmaStylesToTailwind figmaStyles =
     (case colorClasses figmaStyles of
        Inl e \<Rightarrow> Inl e
      | Inr cols \<Rightarrow>
          (case borderClasses figmaStyles of
             Inl e \<Rightarrow> Inl e
           | Inr borders \<Rightarrow>
               (case shadowClasses figmaStyles of
                  Inl e \<Rightarrow> Inl e
                | Inr shadows \<Rightarrow>
                    Inr (cols @ typographyClasses figmaStyles @ layoutClasses figmaStyles @
                         radiusClasses figmaStyles @ borders @ shadows))))"

section \<open>Node Classifier and Prop Extractor\<close>

record PropDefinition =
  prop_name :: string
  prop_type :: string
  defaultValue :: "string option"
  description :: "string option"

record ReactComponentParts =
  jsx :: string
  imports' :: "string list"
  props :: "PropDefinition list"

text \<open>\<open>name.replace(/[^\w\s-]/g, '')\<close> keeps word characters, white space and hyphens.\<close>

definition stripInvalid :: "string \<Rightarrow> string" where
  "stripInvalid s = filter (\<lambda>c. isWordChar c \<or> isSpace c \<or> c = CHR ''-'') s"

definition isNameSeparator :: "char \<Rightarrow> bool" where
  "isNameSeparator c = (c = CHR ''-'' \<or> c = CHR ''_'' \<or> isSpace c)"

text \<open>
  \<open>s.split(/[-_\s]+/)\<close>: the pieces between maximal runs of separators. A separator at
  the start or the end of the string gives an empty first or last piece, and the empty
  string gives one empty piece. \<open>cur\<close> is the piece being read and \<open>inRun\<close> says that the
  previous character was a separator.
\<close>

fun splitFrom :: "string \<Rightarrow> bool \<Rightarrow> string \<Rightarrow> string list" where
  "splitFrom cur inRun [] = [cur]"
| "splitFrom cur inRun (c # cs) =
     (if isNameSeparator c then
        (if inRun then splitFrom cur True cs else cur # splitFrom [] True cs)
      else splitFrom (cur @ [c]) False cs)"

definition splitName :: "string \<Rightarrow> string list" where
  "splitName s = splitFrom [] False s"

text \<open>\<open>word.charAt(0).toUpperCase() + word.slice(1).toLowerCase()\<close>\<close>

definition capitalize :: "string \<Rightarrow> string" where
  "capitalize word = toUpperCase (take 1 word) @ toLowerCase (drop 1 word)"

definition toComponentName :: "string \<Rightarrow> string" where
  "toComponentName nm = concat (map capitalize (splitName (stripInvalid nm)))"

text \<open>\<open>split\<close> never returns the empty array, so \<open>parts[0]\<close> is always a string; the
  first branch of the case is there for totality only (see \<open>splitName_nonempty\<close>).\<close>

definition toPropName :: "string \<Rightarrow> string" where
  "toPropName nm =
     (case splitName (stripInvalid nm) of
        [] \<Rightarrow> []
      | p # ps \<Rightarrow> toLowerCase p @ concat (map capitalize ps))"

text \<open>\<open>JSON.stringify\<close> of a string.\<close>

definition jsonEscapeChar :: "char \<Rightarrow> string" where
  "jsonEscapeChar c =
     (if c = CHR 0x22 then [CHR 0x5C, CHR 0x22]
      else if c = CHR 0x5C then [CHR 0x5C, CHR 0x5C]
      else if c = CHR 0x08 then [CHR 0x5C, CHR ''b'']
      else if c = CHR 0x0C then [CHR 0x5C, CHR ''f'']
      else if c = CHR 0x0A then [CHR 0x5C, CHR ''n'']
      else if c = CHR 0x0D then [CHR 0x5C, CHR ''r'']
      else if c = CHR 0x09 then [CHR 0x5C, CHR ''t'']
      else if (of_char c :: nat) < 32 then [CHR 0x5C] @ ''u00'' @ padStart2 (natToString 16 (of_char c))
      else [c])"

definition JSON_stringify :: "string \<Rightarrow> string" where
  "JSON_stringify s = [CHR 0x22] @ concat (map jsonEscapeChar s) @ [CHR 0x22]"

text \<open>A string literal of the source that is itself written in single quotes.\<close>

definition singleQuoted :: "string \<Rightarrow> string" where
  "singleQuoted s = [CHR 0x27] @ s @ [CHR 0x27]"

definition looksLikeButton :: "FigmaNode \<Rightarrow> bool" where
  "looksLikeButton node =
     (includesStr (toLowerCase (node_name node)) ''button'' \<or>
      includesStr (toLowerCase (node_name node)) ''btn'')"

definition containerLikeName :: "FigmaNode \<Rightarrow> bool" where
  "containerLikeName node =
     (includesStr (toLowerCase (node_name node)) ''container'' \<or>
      includesStr (toLowerCase (node_name node)) ''wrapper'' \<or>
      includesStr (toLowerCase (node_name node)) ''layout'' \<or>
      includesStr (toLowerCase (node_name node)) ''section'')"

definition extractProps :: "FigmaNode \<Rightarrow> PropDefinition list" where
  "extractProps node =
     (case characters node of
        None \<Rightarrow> []
      | Some chars \<Rightarrow>
          (if node_type node = ''TEXT'' \<and> chars \<noteq> [] then
             [\<lparr>prop_name = (let propName = toPropName (node_name node)
                            in if propName = [] then ''text'' else propName),
               prop_type = ''string'',
               defaultValue = Some (JSON_stringify chars),
               description = Some (''Text content for '' @ node_name node)\<rparr>]
           else [])) @
     (if includesStr (toLowerCase (node_name node)) ''variant'' then
        [\<lparr>prop_name = ''variant'',
          prop_type = singleQuoted ''primary'' @ '' | '' @ singleQuoted ''secondary'' @ '' | '' @
                      singleQuoted ''outline'' @ '' | '' @ singleQuoted ''text'',
          defaultValue = Some (singleQuoted ''primary''),
          description = Some ''Visual variant of the component''\<rparr>]
      else []) @
     (if looksLikeButton node then
        [\<lparr>prop_name = ''onClick'',
          prop_type = ''() => void'',
          defaultValue = None,
          description = Some ''Function called when button is clicked''\<rparr>]
      else []) @
     (if children node \<noteq> [] \<and> containerLikeName node then
        [\<lparr>prop_name = ''children'',
          prop_type = ''React.ReactNode'',
          defaultValue = None,
          description = Some ''Child elements to render inside the component''\<rparr>]
      else []) @
     [\<lparr>prop_name = ''className'',
       prop_type = ''string'',
       defaultValue = None,
       description = Some ''Additional CSS classes to apply''\<rparr>]"

section \<open>Tree-to-Markup Translator\<close>

text \<open>
  \<open>figmaNodeToJSX\<close> switches on \<open>node.type\<close>. Each case of the switch builds one result;
  the five functions below are those cases, and \<open>figmaNodeToJSX\<close> is the switch with the
  loop over the children of a container. \<open>classNameOf\<close> is the expression
  \<open>node.name.toLowerCase().replace(/\s+/g, '-')\<close>, which four of the cases use.
\<close>

definition classNameOf :: "FigmaNode \<Rightarrow> string" where
  "classNameOf node = replaceSpaces (toLowerCase (node_name node))"

definition textResult :: "FigmaNode \<Rightarrow> string list \<Rightarrow> ReactComponentParts" where
  \<open>textResult node tailwindClasses =
     (let textProps = extractProps node
      in \<lparr>jsx = ''<p className="'' @ join '' '' tailwindClasses @ ''">{'' @
                 (case textProps of
                    [] \<Rightarrow> ''text''
                  | p # _ \<Rightarrow> (if prop_name p = [] then ''text'' else prop_name p)) @
                 ''}</p>'',
          imports' = [],
          props = textProps\<rparr>)\<close>

definition shapeResult :: "FigmaNode \<Rightarrow> string list \<Rightarrow> ReactComponentParts" where
  \<open>shapeResult node shapeClasses =
     \<lparr>jsx = ''<div className="'' @ join '' '' shapeClasses @ '' '' @
              toLowerCase (node_type node) @ '' '' @ classNameOf node @ ''"></div>'',
      imports' = [],
      props = []\<rparr>\<close>

definition hasChildrenProp :: "PropDefinition list \<Rightarrow> bool" where
  "hasChildrenProp containerProps = list_ex (\<lambda>p. prop_name p = ''children'') containerProps"

definition containerResult ::
  "FigmaNode \<Rightarrow> string list \<Rightarrow> string \<Rightarrow> string list \<Rightarrow> PropDefinition list
    \<Rightarrow> ReactComponentParts" where
  \<open>containerResult node containerClasses childrenJSX imps allProps =
     (let containerProps = extractProps node
      in if looksLikeButton node then
           \<lparr>jsx = ''<button \<newline>  className="'' @ join '' '' containerClasses @ '' '' @
                    classNameOf node @ ''"\<newline>  onClick={onClick}\<newline>>'' @
                    childrenJSX @ ''</button>'',
            imports' = imps,
            props = containerProps @ allProps\<rparr>
         else
           \<lparr>jsx = ''<div \<newline>  className="'' @ join '' '' containerClasses @ '' '' @
                    classNameOf node @ ''"\<newline>>'' @
                    (if hasChildrenProp containerProps then ''{children}'' else childrenJSX) @
                    ''</div>'',
            imports' = imps,
            props = containerProps @ (if hasChildrenProp containerProps then [] else allProps)\<rparr>)\<close>

definition imageResult :: "FigmaNode \<Rightarrow> string list \<Rightarrow> ReactComponentParts" where
  \<open>imageResult node imageClasses =
     \<lparr>jsx = ''<img \<newline>  src="'' @ classNameOf node @ ''.png" \<newline>  className="'' @
              join '' '' imageClasses @ ''" \<newline>  alt="'' @ node_name node @ ''"\<newline>/>'',
      imports' = [],
      props = [\<lparr>prop_name = ''src'', prop_type = ''string'', defaultValue = None,
                description = Some ''Image source URL''\<rparr>]\<rparr>\<close>

definition defaultResult :: "FigmaNode \<Rightarrow> ReactComponentParts" where
  \<open>defaultResult node =
     \<lparr>jsx = ''<div className="'' @ classNameOf node @ ''"></div>'',
      imports' = [],
      props = []\<rparr>\<close>

definition shapeTypes :: "string list" where
  "shapeTypes = [''RECTANGLE'', ''ELLIPSE'', ''POLYGON'', ''STAR'', ''VECTOR'', ''LINE'']"

definition containerTypes :: "string list" where
  "containerTypes = [''COMPONENT'', ''INSTANCE'', ''FRAME'', ''GROUP'']"

text \<open>
  The loop \<open>for (const child of node.children)\<close> is \<open>childrenLoop\<close>: its state is
  \<open>childrenJSX\<close>, \<open>imports\<close> and \<open>allProps\<close>, and an exception of a child's translation
  leaves the loop. After the loop the closing indentation is appended to \<open>childrenJSX\<close>.
\<close>

fun figmaNodeToJSX :: "FigmaNode \<Rightarrow> nat \<Rightarrow> error + ReactComponentParts"
  and childrenLoop :: "FigmaNode list \<Rightarrow> nat \<Rightarrow> string \<times> string list \<times> PropDefinition list
    \<Rightarrow> error + string \<times> string list \<times> PropDefinition list" where
  "figmaNodeToJSX (FigmaNode i nm ty ch ks fl st bb cr sk sw ef) level =
     (let node = FigmaNode i nm ty ch ks fl st bb cr sk sw ef
      in case convertFigmaStylesToTailwind node of
           Inl e \<Rightarrow>
             (if ty = ''TEXT'' \<or> ty \<in> set shapeTypes \<or> ty \<in> set containerTypes \<or> ty = ''IMAGE''
              then Inl e else Inr (defaultResult node))
         | Inr classes \<Rightarrow>
             (if ty = ''TEXT'' then Inr (textResult node classes)
              else if ty \<in> set shapeTypes then Inr (shapeResult node classes)
              else if ty \<in> set containerTypes then
                (if ks \<noteq> [] then
                   (case childrenLoop ks level ([], [], []) of
                      Inl e \<Rightarrow> Inl e
                    | Inr (childrenJSX, imps, allProps) \<Rightarrow>
                        Inr (containerResult node classes
                               (childrenJSX @ ''\<newline>'' @ repeat ''  '' level) imps allProps))
                 else Inr (containerResult node classes [] [] []))
              else if ty = ''IMAGE'' then Inr (imageResult node classes)
              else Inr (defaultResult node)))"
| "childrenLoop [] level st = Inr st"
| "childrenLoop (child # rest) level (childrenJSX, imps, allProps) =
     (case figmaNodeToJSX child (level + 1) of
        Inl e \<Rightarrow> Inl e
      | Inr childResult \<Rightarrow>
          childrenLoop rest level
            (childrenJSX @ ''\<newline>'' @ repeat ''  '' (level + 1) @ jsx childResult,
             imps @ imports' childResult,
             allProps @ props childResult))"

section \<open>Regular-expression replacement\<close>

text \<open>
  \<open>s.replace(re, template)\<close> with a global regular expression scans \<open>s\<close> from left to
  right; where the expression matches, the match is replaced by the expansion of the
  template and the scan continues behind the match. A regular expression is modelled by
  its matcher: applied to the rest of the input at a position, it returns the capture
  groups and the length of the match there, or \<open>None\<close>. Every expression of the program
  matches at least one character, so the scan of the empty rest is the empty string.

  \<open>getSubstitution\<close> expands a template: \<open>$$\<close> is a dollar sign, \<open>$&\<close> the match,
  \<open>$`\<close> the input before the match, \<open>$'\<close> the input behind it, and \<open>$n\<close> or \<open>$nn\<close> a
  capture group when there is one of that number; any other \<open>$\<close> stands for itself.
\<close>

type_synonym matcher = "string \<Rightarrow> (string list \<times> nat) option"

definition digitValue :: "char \<Rightarrow> nat option" where
  "digitValue c = map_of (zip decimalDigits [0, 1, 2, 3, 4, 5, 6, 7, 8, 9]) c"

fun getSubstitution :: "string \<Rightarrow> string \<Rightarrow> string \<Rightarrow> string list \<Rightarrow> string \<Rightarrow> string" where
  "getSubstitution matched preceding following caps [] = []"
| "getSubstitution matched preceding following caps (c # t) =
     (if c \<noteq> CHR ''$'' then c # getSubstitution matched preceding following caps t
      else
        (case t of
           [] \<Rightarrow> ''$''
         | d # t1 \<Rightarrow>
             (if d = CHR ''$'' then CHR ''$'' # getSubstitution matched preceding following caps t1
              else if d = CHR ''&'' then matched @ getSubstitution matched preceding following caps t1
              else if d = CHR 0x60 then preceding @ getSubstitution matched preceding following caps t1
              else if d = CHR 0x27 then following @ getSubstitution matched preceding following caps t1
              else
                (case digitValue d of
                   None \<Rightarrow> CHR ''$'' # getSubstitution matched preceding following caps t
                 | Some n1 \<Rightarrow>
                     (let oneDigit =
                            (if 1 \<le> n1 \<and> n1 \<le> length caps
                             then caps ! (n1 - 1) @ getSubstitution matched preceding following caps t1
                             else CHR ''$'' # getSubstitution matched preceding following caps t)
                      in case t1 of
                           [] \<Rightarrow> oneDigit
                         | d2 # t2 \<Rightarrow>
                             (case digitValue d2 of
                                None \<Rightarrow> oneDigit
                              | Some n2 \<Rightarrow>
                                  (if 1 \<le> 10 * n1 + n2 \<and> 10 * n1 + n2 \<le> length caps
                                   then caps ! (10 * n1 + n2 - 1) @
                                        getSubstitution matched preceding following caps t2
                                   else oneDigit)))))))"

declare getSubstitution.simps(2) [simp del]

fun replaceFrom :: "matcher \<Rightarrow> string \<Rightarrow> string \<Rightarrow> string \<Rightarrow> string" where
  "replaceFrom m tmpl preceding [] = []"
| "replaceFrom m tmpl preceding (c # cs) =
     (case m (c # cs) of
        None \<Rightarrow> c # replaceFrom m tmpl (preceding @ [c]) cs
      | Some (caps, k) \<Rightarrow>
          (let matched = c # take (k - 1) cs; rest = drop (k - 1) cs
           in getSubstitution matched preceding rest caps tmpl @
              replaceFrom m tmpl (preceding @ matched) rest))"

declare replaceFrom.simps(2) [simp del]

definition replaceAll :: "matcher \<Rightarrow> string \<Rightarrow> string \<Rightarrow> string" where
  "replaceAll m tmpl s = replaceFrom m tmpl [] s"

text \<open>
  \<open><tag([^>]*)>\<close>: the tag, the longest run of characters other than \<open>>\<close>, and the
  \<open>>\<close> that must follow it (a shorter run is followed by a character of the run, so
  backtracking finds nothing else).
\<close>

definition openTag :: "string \<Rightarrow> matcher" where
  "openTag tag s =
     (if startsWith s tag then
        (let rest = drop (length tag) s; g1 = takeWhile (\<lambda>c. c \<noteq> CHR ''>'') rest
         in if length g1 < length rest then Some ([g1], length tag + length g1 + 1) else None)
      else None)"

text \<open>\<open>(.*?)\<close> before a literal: the shortest run without a line terminator after which
  the literal follows.\<close>

fun lazyUntil :: "string \<Rightarrow> string \<Rightarrow> string option" where
  "lazyUntil lit [] = (if lit = [] then Some [] else None)"
| "lazyUntil lit (c # cs) =
     (if startsWith (c # cs) lit then Some []
      else if isLineTerminator c then None
      else map_option ((#) c) (lazyUntil lit cs))"

text \<open>\<open><div([^>]*)>(.*?)<\/div>\<close>\<close>

definition divElement :: matcher where
  "divElement s =
     (case openTag ''<div'' s of
        None \<Rightarrow> None
      | Some (caps, k) \<Rightarrow>
          (case lazyUntil ''</div>'' (drop k s) of
             None \<Rightarrow> None
           | Some g2 \<Rightarrow> Some (caps @ [g2], k + length g2 + 6)))"

text \<open>\<open>onClick={([^}]+)}\<close>\<close>

definition onClickAttr :: matcher where
  "onClickAttr s =
     (if startsWith s ''onClick={'' then
        (let rest = drop 9 s; g1 = takeWhile (\<lambda>c. c \<noteq> CHR ''}'') rest
         in if g1 \<noteq> [] \<and> length g1 < length rest then Some ([g1], 9 + length g1 + 1) else None)
      else None)"

text \<open>An alternation of words under the flag \<open>i\<close>: the first word, in the order written,
  that the input starts with, whatever the case of its letters.\<close>

definition firstWordCI :: "string list \<Rightarrow> string \<Rightarrow> string option" where
  "firstWordCI ws s = find (\<lambda>w. startsWith (toLowerCase s) w) ws"

definition anyWordCI :: "string list \<Rightarrow> matcher" where
  "anyWordCI ws s = map_option (\<lambda>w. ([], length w)) (firstWordCI ws s)"

section \<open>Accessibility Rewriter\<close>

definition determineLikelyHeadingLevel :: "FigmaNode \<Rightarrow> int" where
  "determineLikelyHeadingLevel figmaNode =
     (case style figmaNode of
        None \<Rightarrow> 2
      | Some st \<Rightarrow>
          (if geNum (fontSize st) 32 then 1
           else if geNum (fontSize st) 24 then 2
           else if geNum (fontSize st) 20 then 3
           else if geNum (fontSize st) 18 then 4
           else if geNum (fontSize st) 16 then 5
           else 6))"

definition isLikelyButton :: "FigmaNode \<Rightarrow> bool" where
  "isLikelyButton figmaNode =
     (let nameLower = toLowerCase (node_name figmaNode)
      in if includesStr nameLower ''button'' \<or> includesStr nameLower ''btn'' then True
         else
           (case cornerRadius figmaNode of
              None \<Rightarrow> False
            | Some cr \<Rightarrow>
                (if cr \<noteq> 0 \<and> cr > 0 then
                   (case fills figmaNode of
                      None \<Rightarrow> False
                    | Some fs \<Rightarrow> length fs > 0)
                 else False)))"

definition isLikelyImage :: "FigmaNode \<Rightarrow> bool" where
  "isLikelyImage figmaNode =
     (if node_type figmaNode = ''IMAGE'' then True
      else
        (let nameLower = toLowerCase (node_name figmaNode)
         in if includesStr nameLower ''image'' \<or> includesStr nameLower ''img'' \<or>
               includesStr nameLower ''icon'' then True
            else
              (case fills figmaNode of
                 None \<Rightarrow> False
               | Some fs \<Rightarrow> list_ex (\<lambda>fill. paint_type fill = ''IMAGE'') fs)))"

definition isLikelyInputField :: "FigmaNode \<Rightarrow> bool" where
  "isLikelyInputField figmaNode =
     (let nameLower = toLowerCase (node_name figmaNode)
      in includesStr nameLower ''input'' \<or> includesStr nameLower ''field'' \<or>
         includesStr nameLower ''text field'' \<or> includesStr nameLower ''form field'')"

definition imageWords :: "string list" where
  "imageWords = [''img'', ''image'', ''icon'', ''pic'', ''picture'']"

text \<open>\<open>altText.replace(/^(img|image|icon|pic|picture)[-_\s]*/i, '')\<close>\<close>

definition stripImagePrefix :: "string \<Rightarrow> string" where
  "stripImagePrefix s =
     (case firstWordCI imageWords s of
        None \<Rightarrow> s
      | Some w \<Rightarrow> dropWhile isNameSeparator (drop (length w) s))"

text \<open>
  \<open>altText.replace(/[-_\s]*(img|image|icon|pic|picture)$/i, '')\<close>: the match starts at
  the first position from which the rest of the string is separators followed by exactly
  one of the words, and it runs to the end.
\<close>

fun stripImageSuffix :: "string \<Rightarrow> string" where
  "stripImageSuffix [] = []"
| "stripImageSuffix (c # cs) =
     (if toLowerCase (dropWhile isNameSeparator (c # cs)) \<in> set imageWords then []
      else c # stripImageSuffix cs)"

definition generateAltText :: "FigmaNode \<Rightarrow> string" where
  "generateAltText figmaNode =
     (let altText = stripImageSuffix (stripImagePrefix (node_name figmaNode))
      in if altText = [] \<or> toLowerCase altText \<in> set imageWords then ''Image'' else altText)"

text \<open>
  \<open>enhanceWithAccessibility\<close> is four consecutive \<open>if\<close> blocks over the variable
  \<open>enhancedJsx\<close>. Each block is a function of the markup so far and the node, named
  after what the block adds, and \<open>enhanceWithAccessibility\<close> runs them in order.
\<close>

definition hasText :: "FigmaNode \<Rightarrow> bool" where
  "hasText figmaNode =
     (node_type figmaNode = ''TEXT'' \<or>
      (case characters figmaNode of None \<Rightarrow> False | Some chars \<Rightarrow> length chars > 0))"

definition headingPass :: "string \<Rightarrow> FigmaNode \<Rightarrow> string" where
  "headingPass enhancedJsx figmaNode =
     (if hasText figmaNode then
        (case style figmaNode of
           None \<Rightarrow> enhancedJsx
         | Some st \<Rightarrow>
             (if geNum (fontSize st) 16 then
                (let headingLevel = toStringRadix 10 (determineLikelyHeadingLevel figmaNode)
                 in replaceAll divElement
                      (''<h'' @ headingLevel @ ''$1>$2</h'' @ headingLevel @ ''>'') enhancedJsx)
              else enhancedJsx))
      else enhancedJsx)"

definition imagePass :: "string \<Rightarrow> FigmaNode \<Rightarrow> string" where
  \<open>imagePass enhancedJsx figmaNode =
     (if isLikelyImage figmaNode then
        (let altText = generateAltText figmaNode
         in if includesStr enhancedJsx ''<img'' then
              replaceAll (openTag ''<img'') (''<img$1 alt="'' @ altText @ ''">'') enhancedJsx
            else if includesStr enhancedJsx ''<Image'' then
              replaceAll (openTag ''<Image'') (''<Image$1 alt="'' @ altText @ ''">'') enhancedJsx
            else
              replaceAll (openTag ''<div'')
                (''<div$1 role="img" aria-label="'' @ altText @ ''">'') enhancedJsx)
      else enhancedJsx)\<close>

definition buttonTemplate :: string where
  \<open>buttonTemplate =
     ''<div$1 role="button" tabIndex={0} onKeyDown={(e) => e.key === "Enter" && onClick && onClick(e)}>''\<close>

definition buttonPass :: "string \<Rightarrow> FigmaNode \<Rightarrow> string" where
  "buttonPass enhancedJsx figmaNode =
     (if isLikelyButton figmaNode then
        (if \<not> includesStr enhancedJsx ''<button'' then
           replaceAll onClickAttr ''onClick={$1}''
             (replaceAll (openTag ''<div'') buttonTemplate enhancedJsx)
         else enhancedJsx)
      else enhancedJsx)"

definition inputWords :: "string list" where
  "inputWords = [''input'', ''field'', ''text field'', ''form field'']"

definition inputPass :: "string \<Rightarrow> FigmaNode \<Rightarrow> string" where
  \<open>inputPass enhancedJsx figmaNode =
     (if isLikelyInputField figmaNode then
        (let inputId = ''input-'' @ map (\<lambda>c. if isAlnum c then c else CHR ''-'') (node_id figmaNode);
             stripped = trim (replaceAll (anyWordCI inputWords) [] (node_name figmaNode));
             labelText = (if stripped = [] then ''Input'' else stripped)
         in if includesStr enhancedJsx ''<input'' then
              replaceAll (openTag ''<input'')
                (''<label htmlFor="'' @ inputId @ ''">'' @ labelText @ ''<input$1 id="'' @ inputId @
                 ''" aria-label="'' @ labelText @ ''"></label>'') enhancedJsx
            else
              replaceAll divElement
                (''<label htmlFor="'' @ inputId @ ''">'' @ labelText @ ''<input$1 id="'' @ inputId @
                 ''" aria-label="'' @ labelText @ ''" /></label>'') enhancedJsx)
      else enhancedJsx)\<close>

definition enhanceWithAccessibility :: "string \<Rightarrow> FigmaNode \<Rightarrow> string" where
  "enhanceWithAccessibility jsxIn figmaNode =
     inputPass (buttonPass (imagePass (headingPass jsxIn figmaNode) figmaNode) figmaNode) figmaNode"

section \<open>Component Assembler\<close>

text \<open>\<open>self.findIndex(p => ...)\<close>: the index of the first element that satisfies the test
  (the filter only asks for an element of the list itself, so there is always one).\<close>

definition findIndex :: "('a \<Rightarrow> bool) \<Rightarrow> 'a list \<Rightarrow> nat" where
  "findIndex P xs = length (takeWhile (\<lambda>x. \<not> P x) xs)"

definition uniqueProps :: "PropDefinition list \<Rightarrow> PropDefinition list" where
  "uniqueProps ps =
     map snd (filter (\<lambda>(index, prop). index = findIndex (\<lambda>p. prop_name p = prop_name prop) ps)
                (zip [0 ..< length ps] ps))"

definition interfaceLine :: "PropDefinition \<Rightarrow> string" where
  "interfaceLine prop =
     ''/** '' @ (case description prop of None \<Rightarrow> [] | Some d \<Rightarrow> d) @ '' */\<newline>  '' @
     prop_name prop @
     (if includesStr (prop_type prop) ''?'' \<or>
         (case defaultValue prop of None \<Rightarrow> False | Some v \<Rightarrow> v \<noteq> [])
      then ''?'' else []) @
     '': '' @ prop_type prop @ '';''"

definition parameterOf :: "PropDefinition \<Rightarrow> string" where
  "parameterOf p =
     (case defaultValue p of
        None \<Rightarrow> prop_name p
      | Some v \<Rightarrow> (if v \<noteq> [] then prop_name p @ '' = '' @ v else prop_name p))"

definition componentCode :: "string \<Rightarrow> ReactComponentParts \<Rightarrow> string \<Rightarrow> string" where
  "componentCode componentName componentParts enhancedJSX =
     (let unique = uniqueProps (props componentParts)
      in ''\<newline>import React from '' @ singleQuoted ''react'' @ '';\<newline>'' @
         join ''\<newline>'' (imports' componentParts) @
         ''\<newline>\<newline>interface '' @ componentName @ ''Props {\<newline>  '' @
         join ''\<newline>  '' (map interfaceLine unique) @
         ''\<newline>}\<newline>\<newline>export const '' @ componentName @ '' = ({ \<newline>  '' @
         join '', '' (map parameterOf unique) @
         '' \<newline>}: '' @ componentName @ ''Props) => {\<newline>  return (\<newline>    '' @
         enhancedJSX @
         ''\<newline>  );\<newline>};\<newline>'')"

text \<open>
  \<open>prettier.format\<close> is not part of the program: it is the parameter \<open>format\<close>, which
  returns the formatted source or raises (\<open>Inl\<close>) some error value. The result of
  \<open>generateReactComponent\<close> is the value the promise settles with (\<open>Inl\<close> when it is
  rejected) and the list of what was written with \<open>console.error\<close>.
\<close>

definition generateReactComponent ::
  "(string \<Rightarrow> 'e + string) \<Rightarrow> string \<Rightarrow> FigmaNode \<Rightarrow> (error + string) \<times> (string \<times> 'e) list" where
  "generateReactComponent format componentName figmaNode =
     (case figmaNodeToJSX figmaNode 0 of
        Inl e \<Rightarrow> (Inl e, [])
      | Inr componentParts \<Rightarrow>
          (let enhancedJSX = enhanceWithAccessibility (jsx componentParts) figmaNode;
               code = componentCode componentName componentParts enhancedJSX
           in case format code of
                Inr formatted \<Rightarrow> (Inr formatted, [])
              | Inl err \<Rightarrow> (Inr code, [(''Error formatting component code:'', err)])))"

section \<open>Notions used in the statements and proofs\<close>

text \<open>\<open>noMatch m s\<close>: the regular expression \<open>m\<close> matches at no position of \<open>s\<close>.\<close>

fun noMatch :: "matcher \<Rightarrow> string \<Rightarrow> bool" where
  "noMatch m [] = True"
| "noMatch m (c # cs) = (m (c # cs) = None \<and> noMatch m cs)"

text \<open>The nodes of the examples: a text node, a plain frame and a frame with a container
  keyword around it, a plain frame around that one, and an image node whose name starts
  and ends with a filler word.\<close>

definition exTitle :: FigmaNode where
  "exTitle = FigmaNode ''1:3'' ''Title'' ''TEXT'' (Some ''Hi'') []
     None None None None None None None"

definition exCard :: FigmaNode where
  "exCard = FigmaNode ''1:2'' ''Card'' ''FRAME'' None [exTitle]
     None None None None None None None"

definition exCardContainer :: FigmaNode where
  "exCardContainer = FigmaNode ''1:1'' ''Card Container'' ''FRAME'' None [exTitle]
     None None None None None None None"

definition exOuterCard :: FigmaNode where
  "exOuterCard = FigmaNode ''1:0'' ''Card'' ''FRAME'' None [exCardContainer]
     None None None None None None None"




text \<open>\<open>classChar\<close>: the characters of which the Style Mapper's class tokens are made.\<close>

definition classChar :: "char \<Rightarrow> bool" where
  "classChar c = (c \<in> set (lowerAlphabet @ decimalDigits @ ''-''))"

definition colourTokens :: "string list" where
  "colourTokens = ''text-black'' # map snd tailwindColors"

definition exHeadline :: FigmaNode where
  "exHeadline = FigmaNode ''1:4'' ''Headline'' ''TEXT'' (Some ''Welcome'') [] None
     (Some \<lparr>fontSize = Some 32, fontWeight = None, lineHeight = None, letterSpacing = None\<rparr>)
     None None None None None"

text \<open>
  The two parts of a generic container's markup that the statements name: the opening
  tag as \<open>containerResult\<close> writes it, and the markup of the translated children as the
  loop and the line after it build it (each child on its own line, one level deeper,
  then the line of the closing tag).
\<close>

definition divOpening :: "FigmaNode \<Rightarrow> string list \<Rightarrow> string" where
  \<open>divOpening node containerClasses =
     ''<div \<newline>  className="'' @ join '' '' containerClasses @ '' '' @ classNameOf node @ ''"\<newline>>''\<close>

definition childrenMarkup :: "nat \<Rightarrow> ReactComponentParts list \<Rightarrow> string" where
  "childrenMarkup level rs =
     concat (map (\<lambda>cr. ''\<newline>'' @ repeat ''  '' (level + 1) @ jsx cr) rs) @
     ''\<newline>'' @ repeat ''  '' level"

section \<open>Properties of the Style Mapper\<close>

text \<open>
  C6. The breakpoints are inclusive at their upper bound: a font size of exactly 16 maps
  to \<open>text-base\<close> and 17 maps to \<open>text-lg\<close>; a corner radius of exactly 8 maps to
  \<open>rounded-lg\<close> and 9 maps to \<open>rounded-xl\<close>, both in the corner-radius block of any
  node and as the whole output of the mapper on a node with no other visual attribute.
\<close>

theorem breakpoint_boundaries:
  "mapFontSizeToTailwind 16 = ''text-base'' \<and>
   mapFontSizeToTailwind 17 = ''text-lg'' \<and>
   typographyClasses (FigmaNode i nm ty ch ks fl
      (Some \<lparr>fontSize = Some 16, fontWeight = None, lineHeight = None, letterSpacing = None\<rparr>)
      bb cr sk sw ef) = [''text-base''] \<and>
   typographyClasses (FigmaNode i nm ty ch ks fl
      (Some \<lparr>fontSize = Some 17, fontWeight = None, lineHeight = None, letterSpacing = None\<rparr>)
      bb cr sk sw ef) = [''text-lg''] \<and>
   radiusClasses (FigmaNode i nm ty ch ks fl st bb (Some 8) sk sw ef) = [''rounded-lg''] \<and>
   radiusClasses (FigmaNode i nm ty ch ks fl st bb (Some 9) sk sw ef) = [''rounded-xl''] \<and>
   convertFigmaStylesToTailwind (FigmaNode i nm ty ch ks None None None (Some 8) None sw None)
     = Inr [''rounded-lg''] \<and>
   convertFigmaStylesToTailwind (FigmaNode i nm ty ch ks None None None (Some 9) None sw None)
     = Inr [''rounded-xl'']"
  by (simp add: mapFontSizeToTailwind_def typographyClasses_def radiusClasses_def
      convertFigmaStylesToTailwind_def colorClasses_def borderClasses_def shadowClasses_def
      layoutClasses_def)

text \<open>
  C7. On a node whose \<open>fills\<close>, \<open>style\<close>, \<open>absoluteBoundingBox\<close>, \<open>cornerRadius\<close>,
  \<open>strokes\<close> and \<open>effects\<close> are all absent, the Style Mapper returns normally, with the
  empty list of class tokens.
\<close>

theorem convert_absent_attributes:
  assumes "fills n = None" and "style n = None" and "absoluteBoundingBox n = None"
    and "cornerRadius n = None" and "strokes n = None" and "effects n = None"
  shows "convertFigmaStylesToTailwind n = Inr []"
  using assms
  by (simp add: convertFigmaStylesToTailwind_def colorClasses_def borderClasses_def
      shadowClasses_def typographyClasses_def layoutClasses_def radiusClasses_def)

theorem convert_absent_attributes_witness:
  "convertFigmaStylesToTailwind
     (FigmaNode ''1:2'' ''Card'' ''FRAME'' None [] None None None None None (Some 3) None) = Inr []"
  using convert_absent_attributes
    [of "FigmaNode ''1:2'' ''Card'' ''FRAME'' None [] None None None None None (Some 3) None"]
  by simp

text \<open>
  C4. The opacity token is pushed under the test \<open>fill.opacity && fill.opacity < 1\<close>. An
  opacity of 0 is falsy, so for a solid white first fill of opacity 0 the mapper returns
  the colour token alone, with no \<open>opacity-0\<close>; for a nonzero opacity below 1 the token
  \<open>opacity-\<close> followed by \<open>round(opacity * 100)\<close> is there (here one half gives 50).
\<close>

theorem opacity_zero_no_token:
  "convertFigmaStylesToTailwind
     (FigmaNode ''1:2'' ''Veil'' ''RECTANGLE'' None []
        (Some [\<lparr>paint_type = ''SOLID'',
                 color = Some \<lparr>color_r = 1, color_g = 1, color_b = 1\<rparr>,
                 opacity = Some 0\<rparr>])
        None None None None None None) = Inr [''text-white''] \<and>
   convertFigmaStylesToTailwind
     (FigmaNode ''1:2'' ''Veil'' ''RECTANGLE'' None []
        (Some [\<lparr>paint_type = ''SOLID'',
                 color = Some \<lparr>color_r = 1, color_g = 1, color_b = 1\<rparr>,
                 opacity = Some (1 / 2)\<rparr>])
        None None None None None None) = Inr [''text-white'', ''opacity-50'']"
  by code_simp

section \<open>Facts about matching and replacement\<close>

lemma startsWith_append: "startsWith s p \<longleftrightarrow> (\<exists>t. s = p @ t)"
  by (induction s p rule: startsWith.induct) auto

lemma takeWhile_split:
  assumes "length (takeWhile P xs) < length xs"
  shows "\<exists>y ys. xs = takeWhile P xs @ y # ys \<and> \<not> P y"
proof -
  have "dropWhile P xs \<noteq> []"
    using assms by (metis append_Nil2 less_irrefl takeWhile_dropWhile_id)
  then obtain y ys where d: "dropWhile P xs = y # ys"
    by (cases "dropWhile P xs") auto
  then have "\<not> P y"
    by (metis hd_dropWhile list.sel(1) list.distinct(1))
  moreover have "xs = takeWhile P xs @ y # ys"
    using d by (metis takeWhile_dropWhile_id)
  ultimately show ?thesis by blast
qed

lemma openTag_Some:
  assumes "openTag tag s = Some (caps, k)"
  shows "\<exists>g1 rest. s = (tag @ g1 @ ''>'') @ rest \<and> CHR ''>'' \<notin> set g1 \<and>
           caps = [g1] \<and> k = length (tag @ g1 @ ''>'')"
proof -
  from assms have sw: "startsWith s tag"
    by (auto simp: openTag_def split: if_splits)
  then obtain t where s: "s = tag @ t" by (auto simp: startsWith_append)
  let ?g = "takeWhile (\<lambda>c. c \<noteq> CHR ''>'') t"
  from assms s sw have len: "length ?g < length t" and caps: "caps = [?g]"
    and k: "k = length tag + length ?g + 1"
    by (auto simp: openTag_def Let_def split: if_splits)
  from takeWhile_split [OF len] obtain y ys where t: "t = ?g @ y # ys" and y: "y = CHR ''>''"
    by auto
  have "CHR ''>'' \<notin> set ?g"
    by (auto dest: set_takeWhileD)
  moreover have "s = (tag @ ?g @ ''>'') @ ys" using s t y by simp
  ultimately show ?thesis using caps k by auto
qed


lemma onClickAttr_Some:
  assumes "onClickAttr s = Some (caps, k)"
  shows "\<exists>g1 rest. s = (''onClick={'' @ g1 @ ''}'') @ rest \<and> CHR ''}'' \<notin> set g1 \<and>
           caps = [g1] \<and> k = length (''onClick={'' @ g1 @ ''}'')"
proof -
  from assms have sw: "startsWith s ''onClick={''"
    by (auto simp: onClickAttr_def split: if_splits)
  then obtain t where s: "s = ''onClick={'' @ t" by (auto simp: startsWith_append)
  let ?g = "takeWhile (\<lambda>c. c \<noteq> CHR ''}'') t"
  from assms s have len: "length ?g < length t" and caps: "caps = [?g]"
    and k: "k = 9 + length ?g + 1"
    by (auto simp: onClickAttr_def Let_def split: if_splits)
  from takeWhile_split [OF len] obtain y ys where t: "t = ?g @ y # ys" and y: "y = CHR ''}''"
    by auto
  have "CHR ''}'' \<notin> set ?g"
    by (auto dest: set_takeWhileD)
  moreover have "s = (''onClick={'' @ ?g @ ''}'') @ ys" using s t y by simp
  ultimately show ?thesis using caps k by auto
qed

lemma replaceFrom_match:
  assumes "m (mt @ rest) = Some (caps, length mt)" and "mt \<noteq> []"
  shows "replaceFrom m tmpl pre (mt @ rest) =
         getSubstitution mt pre rest caps tmpl @ replaceFrom m tmpl (pre @ mt) rest"
proof -
  from assms(2) obtain c mt' where mt: "mt = c # mt'" by (cases mt) auto
  with assms(1) show ?thesis by (simp add: replaceFrom.simps Let_def)
qed

lemma digitValue_simps [simp]:
  "digitValue (CHR ''1'') = Some 1" "digitValue (CHR ''2'') = Some 2"
  "digitValue (CHR ''>'') = None" "digitValue (CHR ''<'') = None"
  "digitValue (CHR '' '') = None" "digitValue (CHR ''}'') = None"
  by (simp_all add: digitValue_def decimalDigits_def)

lemma getSubstitution_char [simp]:
  "c \<noteq> CHR ''$'' \<Longrightarrow>
   getSubstitution m p a caps (c # t) = c # getSubstitution m p a caps t"
  by (simp add: getSubstitution.simps)


lemma getSubstitution_group1:
  assumes "digitValue d = None" and "caps \<noteq> []"
  shows "getSubstitution m p a caps (CHR ''$'' # CHR ''1'' # d # t) =
         hd caps @ getSubstitution m p a caps (d # t)"
proof -
  from assms(2) obtain g gs where "caps = g # gs" by (cases caps) auto
  then show ?thesis
    by (subst getSubstitution.simps) (simp add: assms(1))
qed

lemma getSubstitution_group2:
  assumes "digitValue d = None" and "caps = [g1, g2]"
  shows "getSubstitution m p a caps (CHR ''$'' # CHR ''2'' # d # t) =
         g2 @ getSubstitution m p a caps (d # t)"
  by (subst getSubstitution.simps) (simp add: assms)

lemma replaceFrom_onClick_id: "replaceFrom onClickAttr ''onClick={$1}'' pre s = s"
proof (induction "length s" arbitrary: s pre rule: less_induct)
  case less
  show ?case
  proof (cases s)
    case Nil
    then show ?thesis by simp
  next
    case (Cons c cs)
    show ?thesis
    proof (cases "onClickAttr s")
      case None
      with Cons less show ?thesis by (simp add: replaceFrom.simps)
    next
      case (Some r)
      obtain caps k where r: "r = (caps, k)" by (cases r)
      from onClickAttr_Some [OF Some [unfolded r]] obtain g1 rest where
        s: "s = (''onClick={'' @ g1 @ ''}'') @ rest" and caps: "caps = [g1]"
        and k: "k = length (''onClick={'' @ g1 @ ''}'')" by blast
      let ?mt = "''onClick={'' @ g1 @ ''}''"
      have sub: "getSubstitution ?mt pre rest [g1] ''onClick={$1}'' = ?mt"
        by (simp add: getSubstitution_group1)
      have "length rest < length s" using s by simp
      then have ih: "replaceFrom onClickAttr ''onClick={$1}'' (pre @ ?mt) rest = rest"
        using less by blast
      have "replaceFrom onClickAttr ''onClick={$1}'' pre (?mt @ rest) =
            getSubstitution ?mt pre rest [g1] ''onClick={$1}'' @
            replaceFrom onClickAttr ''onClick={$1}'' (pre @ ?mt) rest"
        using Some r s caps k by (intro replaceFrom_match) auto
      then show ?thesis using sub ih s by simp
    qed
  qed
qed

lemma replaceFrom_noMatch: "noMatch m s \<Longrightarrow> replaceFrom m tmpl pre s = s"
  by (induction s arbitrary: pre) (auto simp: replaceFrom.simps)

lemma replaceAll_noMatch: "noMatch m s \<Longrightarrow> replaceAll m tmpl s = s"
  by (simp add: replaceAll_def replaceFrom_noMatch)

lemma replaceAll_onClick_id: "replaceAll onClickAttr ''onClick={$1}'' s = s"
  by (simp add: replaceAll_def replaceFrom_onClick_id)

section \<open>Properties of the Component Assembler\<close>

lemma title_node_translation:
  "figmaNodeToJSX
     (FigmaNode ''1:3'' ''Title'' ''TEXT'' (Some ''Hi'') [] None None None None None None None) 0 =
   Inr (textResult
     (FigmaNode ''1:3'' ''Title'' ''TEXT'' (Some ''Hi'') [] None None None None None None None) [])"
  by (simp add: convertFigmaStylesToTailwind_def colorClasses_def borderClasses_def
      shadowClasses_def typographyClasses_def layoutClasses_def radiusClasses_def)

text \<open>
  C8. When the translation of the node has produced its parts, so that a component is
  assembled, a formatter that raises does not make \<open>generateReactComponent\<close> fail: the
  result is the unformatted component source, and the error is written once with the
  message \<open>Error formatting component code:\<close>. Whatever the formatter does, the result is
  then a source text.
\<close>

theorem formatting_failure_recovered:
  assumes "figmaNodeToJSX figmaNode 0 = Inr parts"
  shows "(\<forall>err. format (componentCode componentName parts
                       (enhanceWithAccessibility (jsx parts) figmaNode)) = Inl err \<longrightarrow>
            generateReactComponent format componentName figmaNode =
              (Inr (componentCode componentName parts
                     (enhanceWithAccessibility (jsx parts) figmaNode)),
               [(''Error formatting component code:'', err)])) \<and>
         (\<exists>src. fst (generateReactComponent format componentName figmaNode) = Inr src)"
  using assms by (auto simp: generateReactComponent_def Let_def split: sum.splits)

theorem formatting_failure_recovered_witness:
  "generateReactComponent (\<lambda>src. Inl (0::nat)) ''Title''
     (FigmaNode ''1:3'' ''Title'' ''TEXT'' (Some ''Hi'') [] None None None None None None None) =
   (Inr (componentCode ''Title''
           (textResult (FigmaNode ''1:3'' ''Title'' ''TEXT'' (Some ''Hi'') [] None None None None None None None) [])
           (enhanceWithAccessibility
              (jsx (textResult (FigmaNode ''1:3'' ''Title'' ''TEXT'' (Some ''Hi'') [] None None None None None None None) []))
              (FigmaNode ''1:3'' ''Title'' ''TEXT'' (Some ''Hi'') [] None None None None None None None))),
    [(''Error formatting component code:'', 0)])"
  using formatting_failure_recovered
    [OF title_node_translation, of "\<lambda>src. Inl (0::nat)" "''Title''"]
  by simp

section \<open>Properties of the Accessibility Rewriter\<close>

lemma heading_template_on_hello:
  "replaceAll divElement ''<h1$1>$2</h1>'' ''<div>Hello</div>'' = ''<h1>Hello</h1>''"
  by code_simp

lemma toStringRadix_10_1: "toStringRadix 10 1 = ''1''"
  by code_simp

lemma hello_heading_no_div_tag: "noMatch (openTag ''<div'') ''<h1>Hello</h1>''"
  by code_simp

lemma hello_heading_no_div_element: "noMatch divElement ''<h1>Hello</h1>''"
  by code_simp

lemma hello_heading_includes:
  "includesStr ''<h1>Hello</h1>'' ''<img'' = False"
  "includesStr ''<h1>Hello</h1>'' ''<Image'' = False"
  "includesStr ''<h1>Hello</h1>'' ''<input'' = False"
  by code_simp+

text \<open>
  C5. For every node of type TEXT whose \<open>style.fontSize\<close> is 32, whatever its name and
  other attributes, \<open>enhanceWithAccessibility\<close> turns \<open><div>Hello</div>\<close> into
  \<open><h1>Hello</h1>\<close>: the first block rewrites the wrapper to a level-1 heading, and no
  later block finds anything to rewrite in the result.
\<close>

theorem heading_promotion:
  assumes "node_type n = ''TEXT''" and "style n = Some st" and "fontSize st = Some 32"
  shows "enhanceWithAccessibility ''<div>Hello</div>'' n = ''<h1>Hello</h1>''"
proof -
  have lvl: "determineLikelyHeadingLevel n = 1"
    using assms by (simp add: determineLikelyHeadingLevel_def)
  have "headingPass ''<div>Hello</div>'' n =
        replaceAll divElement
          (''<h'' @ toStringRadix 10 (determineLikelyHeadingLevel n) @ ''$1>$2</h'' @
           toStringRadix 10 (determineLikelyHeadingLevel n) @ ''>'') ''<div>Hello</div>''"
    using assms by (simp add: headingPass_def hasText_def Let_def)
  also have "\<dots> = replaceAll divElement ''<h1$1>$2</h1>'' ''<div>Hello</div>''"
    by (simp add: lvl toStringRadix_10_1)
  finally have h: "headingPass ''<div>Hello</div>'' n = ''<h1>Hello</h1>''"
    by (simp add: heading_template_on_hello)
  have i: "imagePass ''<h1>Hello</h1>'' n = ''<h1>Hello</h1>''"
    by (simp add: imagePass_def Let_def hello_heading_includes
        replaceAll_noMatch [OF hello_heading_no_div_tag])
  have b: "buttonPass ''<h1>Hello</h1>'' n = ''<h1>Hello</h1>''"
    by (simp add: buttonPass_def replaceAll_noMatch [OF hello_heading_no_div_tag]
        replaceAll_onClick_id)
  have f: "inputPass ''<h1>Hello</h1>'' n = ''<h1>Hello</h1>''"
    by (simp add: inputPass_def Let_def hello_heading_includes
        replaceAll_noMatch [OF hello_heading_no_div_element])
  show ?thesis
    by (simp add: enhanceWithAccessibility_def h i b f)
qed

theorem heading_promotion_witness:
  "enhanceWithAccessibility ''<div>Hello</div>''
     (FigmaNode ''1:3'' ''Title'' ''TEXT'' (Some ''Hello'') [] None
        (Some \<lparr>fontSize = Some 32, fontWeight = None, lineHeight = None, letterSpacing = None\<rparr>)
        None None None None None) = ''<h1>Hello</h1>''"
  using heading_promotion
    [of "FigmaNode ''1:3'' ''Title'' ''TEXT'' (Some ''Hello'') [] None
        (Some \<lparr>fontSize = Some 32, fontWeight = None, lineHeight = None, letterSpacing = None\<rparr>)
        None None None None None"
        "\<lparr>fontSize = Some 32, fontWeight = None, lineHeight = None, letterSpacing = None\<rparr>"]
  by simp

text \<open>
  C2 (as the code has it). On markup without \<open><button\<close>, the third block rewrites the
  generic wrapper exactly when \<open>isLikelyButton\<close> holds, and that is the name rule (the name
  contains "button" or "btn", in any case) or a positive \<open>cornerRadius\<close> together with a
  non-empty list of fills. The second replacement of the block puts back what it matched.
\<close>

theorem button_pass_rule:
  assumes "\<not> includesStr enhancedJsx ''<button''"
  shows "buttonPass enhancedJsx n =
           (if looksLikeButton n \<or>
               (case cornerRadius n of
                  None \<Rightarrow> False
                | Some cr \<Rightarrow> cr > 0 \<and> (case fills n of None \<Rightarrow> False | Some fs \<Rightarrow> fs \<noteq> []))
            then replaceAll (openTag ''<div'') buttonTemplate enhancedJsx
            else enhancedJsx)"
  using assms
  by (auto simp: buttonPass_def isLikelyButton_def looksLikeButton_def Let_def
      replaceAll_onClick_id split: option.splits)

lemma rounded_card_facts:
  "\<not> includesStr ''<div>x</div>'' ''<button''"
  "\<not> looksLikeButton
     (FigmaNode ''1:2'' ''Card'' ''FRAME'' None []
        (Some [\<lparr>paint_type = ''SOLID'',
                 color = Some \<lparr>color_r = 1, color_g = 1, color_b = 1\<rparr>, opacity = None\<rparr>])
        None None (Some 4) None None None)"
  by code_simp+

theorem button_pass_rule_witness:
  "buttonPass ''<div>x</div>''
     (FigmaNode ''1:2'' ''Card'' ''FRAME'' None []
        (Some [\<lparr>paint_type = ''SOLID'',
                 color = Some \<lparr>color_r = 1, color_g = 1, color_b = 1\<rparr>, opacity = None\<rparr>])
        None None (Some 4) None None None) =
   replaceAll (openTag ''<div'') buttonTemplate ''<div>x</div>''"
  using button_pass_rule [OF rounded_card_facts(1),
      of "FigmaNode ''1:2'' ''Card'' ''FRAME'' None []
        (Some [\<lparr>paint_type = ''SOLID'',
                 color = Some \<lparr>color_r = 1, color_g = 1, color_b = 1\<rparr>, opacity = None\<rparr>])
        None None (Some 4) None None None"]
  by simp

text \<open>
  C2 (as stated) fails: a frame named "Card", with a corner radius of 4 and one solid
  fill, has neither "button" nor "btn" in its name, and the third block still adds the
  role, the tab index and the key handler to \<open><div>x</div>\<close>.
\<close>

theorem button_pass_name_rule_counterexample:
  \<open>\<not> includesStr ''<div>x</div>'' ''<button'' \<and>
   \<not> looksLikeButton
     (FigmaNode ''1:2'' ''Card'' ''FRAME'' None []
        (Some [\<lparr>paint_type = ''SOLID'',
                 color = Some \<lparr>color_r = 1, color_g = 1, color_b = 1\<rparr>, opacity = None\<rparr>])
        None None (Some 4) None None None) \<and>
   buttonPass ''<div>x</div>''
     (FigmaNode ''1:2'' ''Card'' ''FRAME'' None []
        (Some [\<lparr>paint_type = ''SOLID'',
                 color = Some \<lparr>color_r = 1, color_g = 1, color_b = 1\<rparr>, opacity = None\<rparr>])
        None None (Some 4) None None None) =
   ''<div role="button" tabIndex={0} onKeyDown={(e) => e.key === "Enter" && onClick && onClick(e)}>x</div>''\<close>
  by code_simp

section \<open>Properties of the Translator\<close>

lemma figmaNodeToJSX_container:
  assumes "node_type n \<in> set containerTypes"
  shows "figmaNodeToJSX n level =
     (case convertFigmaStylesToTailwind n of
        Inl e \<Rightarrow> Inl e
      | Inr classes \<Rightarrow>
          (if children n \<noteq> [] then
             (case childrenLoop (children n) level ([], [], []) of
                Inl e \<Rightarrow> Inl e
              | Inr (childrenJSX, imps, allProps) \<Rightarrow>
                  Inr (containerResult n classes
                         (childrenJSX @ ''\<newline>'' @ repeat ''  '' level) imps allProps))
           else Inr (containerResult n classes [] [] [])))"
  using assms
  by (cases n) (auto simp: containerTypes_def shapeTypes_def Let_def split: sum.splits)

lemma figmaNodeToJSX_text:
  assumes "node_type n = ''TEXT''"
  shows "figmaNodeToJSX n level =
     (case convertFigmaStylesToTailwind n of
        Inl e \<Rightarrow> Inl e
      | Inr classes \<Rightarrow> Inr (textResult n classes))"
  using assms by (cases n) (auto simp: Let_def split: sum.splits)

lemma figmaNodeToJSX_image:
  assumes "node_type n = ''IMAGE''"
  shows "figmaNodeToJSX n level =
     (case convertFigmaStylesToTailwind n of
        Inl e \<Rightarrow> Inl e
      | Inr classes \<Rightarrow> Inr (imageResult n classes))"
  using assms
  by (cases n) (auto simp: containerTypes_def shapeTypes_def Let_def split: sum.splits)

lemma figmaNodeToJSX_shape:
  assumes "node_type n \<in> set shapeTypes"
  shows "figmaNodeToJSX n level =
     (case convertFigmaStylesToTailwind n of
        Inl e \<Rightarrow> Inl e
      | Inr classes \<Rightarrow> Inr (shapeResult n classes))"
  using assms
  by (cases n) (auto simp: containerTypes_def shapeTypes_def Let_def split: sum.splits)

lemma figmaNodeToJSX_default:
  assumes "node_type n \<noteq> ''TEXT''" and "node_type n \<notin> set shapeTypes"
    and "node_type n \<notin> set containerTypes" and "node_type n \<noteq> ''IMAGE''"
  shows "figmaNodeToJSX n level = Inr (defaultResult n)"
  using assms
  by (cases n) (auto simp: Let_def split: sum.splits)

lemma childrenLoop_results:
  assumes "childrenLoop cs level (j, im, ps) = Inr (j', im', ps')"
  shows "\<exists>rs. list_all2 (\<lambda>child cr. figmaNodeToJSX child (level + 1) = Inr cr) cs rs \<and>
           j' = j @ concat (map (\<lambda>cr. ''\<newline>'' @ repeat ''  '' (level + 1) @ jsx cr) rs) \<and>
           im' = im @ concat (map imports' rs) \<and>
           ps' = ps @ concat (map props rs)"
  using assms
proof (induction cs arbitrary: j im ps)
  case Nil
  then show ?case by simp
next
  case (Cons child rest)
  from Cons.prems obtain cr where cr: "figmaNodeToJSX child (level + 1) = Inr cr"
    and loop: "childrenLoop rest level
        (j @ ''\<newline>'' @ repeat ''  '' (level + 1) @ jsx cr, im @ imports' cr, ps @ props cr)
        = Inr (j', im', ps')"
    by (auto split: sum.splits)
  from Cons.IH [OF loop] obtain rs where
    rs: "list_all2 (\<lambda>child cr. figmaNodeToJSX child (level + 1) = Inr cr) rest rs"
    and j': "j' = (j @ ''\<newline>'' @ repeat ''  '' (level + 1) @ jsx cr) @
                  concat (map (\<lambda>cr. ''\<newline>'' @ repeat ''  '' (level + 1) @ jsx cr) rs)"
    and im': "im' = (im @ imports' cr) @ concat (map imports' rs)"
    and ps': "ps' = (ps @ props cr) @ concat (map props rs)"
    by blast
  show ?case
    using cr rs j' im' ps' by (intro exI [of _ "cr # rs"]) simp
qed

lemma hasChildrenProp_extractProps:
  assumes "node_type n \<noteq> ''TEXT''"
  shows "hasChildrenProp (extractProps n) = (children n \<noteq> [] \<and> containerLikeName n)"
  using assms
  by (auto simp: hasChildrenProp_def extractProps_def split: option.splits)

text \<open>
  C1 (as the code has it). For a container node with at least one child whose
  translation returns, every child was translated one level deeper; the imports of the
  result are the imports of the children in order; and the properties of the result
  are the node's own extracted properties followed by the children's properties when
  the node is button-like or has no container keyword in its name, and the node's own
  extracted properties alone when the markup takes the child-content placeholder.
\<close>

theorem container_merges_child_results:
  assumes "node_type n \<in> set containerTypes" and "children n \<noteq> []"
    and "figmaNodeToJSX n level = Inr r"
  shows "\<exists>rs. list_all2 (\<lambda>child cr. figmaNodeToJSX child (level + 1) = Inr cr) (children n) rs \<and>
           imports' r = concat (map imports' rs) \<and>
           props r = extractProps n @
             (if looksLikeButton n \<or> \<not> containerLikeName n then concat (map props rs) else [])"
proof -
  from assms(1) have nt: "node_type n \<noteq> ''TEXT''"
    by (auto simp: containerTypes_def)
  from assms obtain classes cj im ap where
    loop: "childrenLoop (children n) level ([], [], []) = Inr (cj, im, ap)"
    and r: "r = containerResult n classes (cj @ ''\<newline>'' @ repeat ''  '' level) im ap"
    by (auto simp: figmaNodeToJSX_container split: sum.splits)
  from childrenLoop_results [OF loop] obtain rs where
    rs: "list_all2 (\<lambda>child cr. figmaNodeToJSX child (level + 1) = Inr cr) (children n) rs"
    and im: "im = concat (map imports' rs)" and ap: "ap = concat (map props rs)"
    by auto
  have "imports' r = concat (map imports' rs)"
    by (simp add: r im containerResult_def Let_def)
  moreover have "props r = extractProps n @
      (if looksLikeButton n \<or> \<not> containerLikeName n then concat (map props rs) else [])"
    using assms(2)
    by (simp add: r ap containerResult_def Let_def hasChildrenProp_extractProps [OF nt])
  ultimately show ?thesis using rs by blast
qed

lemma card_translates: "\<not> isl (figmaNodeToJSX exCard 0)"
  by code_simp

lemma card_facts:
  "node_type exCard \<in> set containerTypes" "children exCard \<noteq> []"
  "\<not> containerLikeName exCard" "\<not> looksLikeButton exCard"
  by code_simp+

theorem container_merges_child_results_witness:
  "\<exists>rs. list_all2 (\<lambda>child cr. figmaNodeToJSX child (0 + 1) = Inr cr) (children exCard) rs \<and>
         imports' (projr (figmaNodeToJSX exCard 0)) = concat (map imports' rs) \<and>
         props (projr (figmaNodeToJSX exCard 0)) = extractProps exCard @ concat (map props rs)"
proof -
  have "figmaNodeToJSX exCard 0 = Inr (projr (figmaNodeToJSX exCard 0))"
    using card_translates by (cases "figmaNodeToJSX exCard 0") auto
  from container_merges_child_results [OF card_facts(1) card_facts(2) this]
  show ?thesis using card_facts(3) by simp
qed

text \<open>
  C1 (as stated) fails: the frame "Card Container" has one child, the text node "Title"
  with the characters "Hi". The child's translation declares the properties \<open>title\<close> and
  \<open>className\<close>; the frame's result declares \<open>children\<close> and \<open>className\<close> only, so the
  child's property \<open>title\<close> was not merged.
\<close>

theorem child_props_not_merged_counterexample:
  "node_type exCardContainer = ''FRAME'' \<and> children exCardContainer = [exTitle] \<and>
   (case figmaNodeToJSX exTitle 1 of Inl e \<Rightarrow> [] | Inr cr \<Rightarrow> map prop_name (props cr))
     = [''title'', ''className''] \<and>
   (case figmaNodeToJSX exCardContainer 0 of Inl e \<Rightarrow> [] | Inr r \<Rightarrow> map prop_name (props r))
     = [''children'', ''className'']"
  by code_simp

section \<open>Characters of names and class tokens\<close>

lemma lowerChar_image: "lowerChar c = c \<or> lowerChar c \<in> set lowerAlphabet"
proof (cases "map_of (zip upperAlphabet lowerAlphabet) c")
  case None
  then show ?thesis by (simp add: lowerChar_def)
next
  case (Some d)
  then have "d \<in> set lowerAlphabet"
    by (meson map_of_SomeD set_zip_rightD)
  with Some show ?thesis by (simp add: lowerChar_def)
qed

lemma upperChar_image: "upperChar c = c \<or> upperChar c \<in> set upperAlphabet"
proof (cases "map_of (zip lowerAlphabet upperAlphabet) c")
  case None
  then show ?thesis by (simp add: upperChar_def)
next
  case (Some d)
  then have "d \<in> set upperAlphabet"
    by (meson map_of_SomeD set_zip_rightD)
  with Some show ?thesis by (simp add: upperChar_def)
qed

lemma in_toLowerCase:
  assumes "x \<in> set (toLowerCase s)" and "x \<notin> set lowerAlphabet"
  shows "x \<in> set s"
proof -
  from assms(1) obtain c where c: "c \<in> set s" and x: "x = lowerChar c"
    by (auto simp: toLowerCase_def)
  with lowerChar_image [of c] assms(2) show ?thesis by auto
qed

lemma in_toUpperCase:
  assumes "x \<in> set (toUpperCase s)" and "x \<notin> set upperAlphabet"
  shows "x \<in> set s"
proof -
  from assms(1) obtain c where c: "c \<in> set s" and x: "x = upperChar c"
    by (auto simp: toUpperCase_def)
  with upperChar_image [of c] assms(2) show ?thesis by auto
qed

lemma in_replaceSpacesFrom:
  "x \<in> set (replaceSpacesFrom b s) \<Longrightarrow> x = CHR ''-'' \<or> (x \<in> set s \<and> \<not> isSpace x)"
  by (induction s arbitrary: b) (auto split: if_splits)

lemma in_classNameOf:
  assumes "x \<in> set (classNameOf n)" and "x \<notin> set lowerAlphabet" and "x \<noteq> CHR ''-''"
  shows "x \<in> set (node_name n) \<and> \<not> isSpace x"
proof -
  from assms(1) have "x = CHR ''-'' \<or> (x \<in> set (toLowerCase (node_name n)) \<and> \<not> isSpace x)"
    unfolding classNameOf_def replaceSpaces_def by (rule in_replaceSpacesFrom)
  with assms(2,3) show ?thesis by (auto dest: in_toLowerCase)
qed

lemma closestLoop_snd:
  "snd (closestLoop c ps st) \<in> insert (snd st) (snd ` set ps)"
proof (induction ps arbitrary: st)
  case Nil
  then show ?case by simp
next
  case (Cons p ps)
  obtain hex cls where p: "p = (hex, cls)" by (cases p)
  obtain md cc where st: "st = (md, cc)" by (cases st)
  show ?case
    using Cons.IH [of "(distance2 c (channels hex), cls)"] Cons.IH [of "(md, cc)"]
    by (auto simp: p st Let_def)
qed

lemma mapToTailwindColor_token: "mapToTailwindColor hex \<in> set colourTokens"
  using closestLoop_snd [of "channels hex" tailwindColors "(None, ''text-black'')"]
  by (simp add: mapToTailwindColor_def colourTokens_def)

lemma colourTokens_chars:
  "\<forall>t \<in> set colourTokens. list_all classChar t \<and>
      list_all classChar (replaceFirst ''text-'' ''border-'' t)"
  by code_simp

lemma hexDigit_classChar: "k < 10 \<Longrightarrow> classChar (hexDigits ! k)"
proof -
  assume "k < 10"
  then have "k \<in> {0, 1, 2, 3, 4, 5, 6, 7, 8, 9}" by auto
  then show ?thesis
    by (auto simp: classChar_def hexDigits_def lowerAlphabet_def decimalDigits_def)
qed

lemma natToString_chars: "list_all classChar (natToString 10 k)"
proof (induction "10::nat" k rule: natToString.induct)
  case (1 k)
  show ?case
  proof (cases "k < 10")
    case True
    then show ?thesis by (simp add: natToString.simps [of 10 k] hexDigit_classChar)
  next
    case False
    then have "list_all classChar (natToString 10 (k div 10))" using 1 by simp
    with False show ?thesis
      by (simp add: natToString.simps [of 10 k] hexDigit_classChar)
  qed
qed

lemma toStringRadix_chars: "list_all classChar (toStringRadix 10 i)"
  by (simp add: toStringRadix_def natToString_chars classChar_def)

lemma classChar_iff: "classChar c = (c \<in> set ''abcdefghijklmnopqrstuvwxyz0123456789-'')"
  by (simp add: classChar_def lowerAlphabet_def decimalDigits_def)

lemma mapToTailwindSize_range:
  "mapToTailwindSize sz \<in> set [''1'', ''2'', ''3'', ''4'', ''5'', ''6'', ''8'', ''10'', ''12'',
      ''16'', ''20'', ''24'', ''32'', ''40'', ''48'', ''64'', ''80'', ''96'', ''full'']"
  by (simp add: mapToTailwindSize_def)

lemma size_tokens_chars:
  "\<forall>t \<in> set [''1'', ''2'', ''3'', ''4'', ''5'', ''6'', ''8'', ''10'', ''12'',
      ''16'', ''20'', ''24'', ''32'', ''40'', ''48'', ''64'', ''80'', ''96'', ''full''].
     list_all classChar (''w-'' @ t) \<and> list_all classChar (''h-'' @ t)"
  by code_simp

lemma layoutClasses_chars: "list_all (list_all classChar) (layoutClasses n)"
proof (cases "absoluteBoundingBox n")
  case None
  then show ?thesis by (simp add: layoutClasses_def)
next
  case (Some box)
  have "list_all classChar (''w-'' @ mapToTailwindSize (width box))"
    "list_all classChar (''h-'' @ mapToTailwindSize (height box))"
    using size_tokens_chars mapToTailwindSize_range by blast+
  with Some show ?thesis by (simp add: layoutClasses_def del: append.simps)
qed

lemma colorClasses_chars:
  assumes "colorClasses n = Inr cs"
  shows "list_all (list_all classChar) cs"
proof -
  have a: "list_all classChar (mapToTailwindColor h)" for h
    using colourTokens_chars mapToTailwindColor_token by blast
  have b: "list_all classChar (toStringRadix 10 i)" for i
    by (rule toStringRadix_chars)
  from assms show ?thesis
    by (auto simp: colorClasses_def Let_def a b classChar_iff
        split: option.splits list.splits if_splits)
qed

lemma borderClasses_chars:
  assumes "borderClasses n = Inr cs"
  shows "list_all (list_all classChar) cs"
proof -
  have a: "list_all classChar (replaceFirst ''text-'' ''border-'' (mapToTailwindColor h))" for h
    using colourTokens_chars mapToTailwindColor_token by blast
  from assms show ?thesis
    by (auto simp: borderClasses_def Let_def a classChar_iff
        split: option.splits list.splits if_splits)
qed

lemma shadowClasses_chars:
  assumes "shadowClasses n = Inr cs"
  shows "list_all (list_all classChar) cs"
proof -
  have "list_all classChar (shadowTier off rad)" for off rad
    by (simp add: shadowTier_def classChar_iff)
  with assms show ?thesis
    by (auto simp: shadowClasses_def split: option.splits)
qed

lemma typographyClasses_chars: "list_all (list_all classChar) (typographyClasses n)"
proof (cases "style n")
  case None
  then show ?thesis by (simp add: typographyClasses_def)
next
  case (Some st)
  have a: "list_all (list_all classChar)
      (case fontSize st of None \<Rightarrow> []
       | Some fs \<Rightarrow> (if fs \<noteq> 0 then [mapFontSizeToTailwind fs] else []))"
    by (simp add: mapFontSizeToTailwind_def classChar_iff split: option.splits)
  have b: "list_all (list_all classChar)
      (case fontWeight st of None \<Rightarrow> []
       | Some fw \<Rightarrow> (if fw \<noteq> 0 then [mapFontWeightToTailwind fw] else []))"
    by (simp add: mapFontWeightToTailwind_def classChar_iff split: option.splits)
  have c: "list_all (list_all classChar)
      (case lineHeight st of
             None \<Rightarrow> []
           | Some lh \<Rightarrow>
               (if lh = 0 then []
                else if lh \<le> 1 then [''leading-none'']
                else if lh \<le> 5 / 4 then [''leading-tight'']
                else if lh \<le> 3 / 2 then [''leading-normal'']
                else if lh \<le> 7 / 4 then [''leading-relaxed'']
                else [''leading-loose'']))"
    by (simp add: classChar_iff split: option.splits)
  have d: "list_all (list_all classChar)
      (case letterSpacing st of
             None \<Rightarrow> []
           | Some ls \<Rightarrow>
               (if ls = 0 then []
                else if ls \<le> - (1 / 20) then [''tracking-tighter'']
                else if ls \<le> 0 then [''tracking-tight'']
                else if ls \<le> 1 / 20 then [''tracking-normal'']
                else if ls \<le> 1 / 10 then [''tracking-wide'']
                else [''tracking-wider'']))"
    by (simp add: classChar_iff split: option.splits)
  show ?thesis
    unfolding typographyClasses_def Some option.case list_all_append
    using a b c d by blast
qed

lemma radiusClasses_chars: "list_all (list_all classChar) (radiusClasses n)"
  by (simp add: radiusClasses_def classChar_iff split: option.splits)

lemma convert_chars:
  assumes "convertFigmaStylesToTailwind n = Inr cs"
  shows "list_all (list_all classChar) cs"
proof -
  from assms obtain c1 c5 c6 where "colorClasses n = Inr c1" "borderClasses n = Inr c5"
    "shadowClasses n = Inr c6"
    and cs: "cs = c1 @ typographyClasses n @ layoutClasses n @ radiusClasses n @ c5 @ c6"
    by (auto simp: convertFigmaStylesToTailwind_def split: sum.splits)
  then show ?thesis
    using colorClasses_chars borderClasses_chars shadowClasses_chars
      typographyClasses_chars [of n] layoutClasses_chars [of n] radiusClasses_chars [of n]
    by simp
qed

lemma in_join:
  "x \<in> set (join sep xs) \<Longrightarrow> x \<in> set sep \<or> (\<exists>t \<in> set xs. x \<in> set t)"
  by (induction sep xs rule: join.induct) auto

lemma in_join_classes:
  assumes "list_all (list_all classChar) cs" and "x \<in> set (join '' '' cs)"
  shows "x = CHR '' '' \<or> classChar x"
  using in_join [OF assms(2)] assms(1) by (auto simp: list_all_iff)

lemma in_splitFrom:
  "p \<in> set (splitFrom cur b s) \<Longrightarrow> set p \<subseteq> set cur \<union> set s"
proof (induction s arbitrary: cur b)
  case Nil
  then show ?case by simp
next
  case (Cons a s)
  show ?case
  proof (cases "isNameSeparator a")
    case True
    with Cons.prems have "p = cur \<or> p \<in> set (splitFrom [] True s) \<or> p \<in> set (splitFrom cur True s)"
      by (auto split: if_splits)
    then show ?thesis using Cons.IH [of "[]" True] Cons.IH [of cur True] by auto
  next
    case False
    with Cons.prems have "p \<in> set (splitFrom (cur @ [a]) False s)" by simp
    then show ?thesis using Cons.IH [of "cur @ [a]" False] by auto
  qed
qed

lemma splitName_nonempty: "splitName s \<noteq> []"
proof -
  have "splitFrom cur b s \<noteq> []" for cur b
    by (induction s arbitrary: cur b) auto
  then show ?thesis by (simp add: splitName_def)
qed

lemma letter_isWordChar:
  "x \<in> set lowerAlphabet \<Longrightarrow> isWordChar x" "x \<in> set upperAlphabet \<Longrightarrow> isWordChar x"
  by (auto simp: isWordChar_def)

lemma in_capitalize:
  assumes "x \<in> set (capitalize w)"
  shows "x \<in> set w \<or> isWordChar x"
proof -
  from assms have "x \<in> set (toUpperCase (take 1 w)) \<or> x \<in> set (toLowerCase (drop 1 w))"
    by (simp add: capitalize_def)
  then show ?thesis
    using in_toUpperCase [of x "take 1 w"] in_toLowerCase [of x "drop 1 w"] letter_isWordChar
    by (meson in_set_dropD in_set_takeD)
qed

lemma in_toPropName:
  assumes "x \<in> set (toPropName nm)"
  shows "isWordChar x \<or> isSpace x \<or> x = CHR ''-''"
proof -
  have piece: "y \<in> set (stripInvalid nm)" if "p \<in> set (splitName (stripInvalid nm))" "y \<in> set p" for p y
    using in_splitFrom [of p "[]" False "stripInvalid nm"] that by (auto simp: splitName_def)
  have strip: "isWordChar y \<or> isSpace y \<or> y = CHR ''-''" if "y \<in> set (stripInvalid nm)" for y
    using that by (auto simp: stripInvalid_def)
  obtain p ps where sp: "splitName (stripInvalid nm) = p # ps"
    using splitName_nonempty [of "stripInvalid nm"] by (cases "splitName (stripInvalid nm)") auto
  from assms sp have "x \<in> set (toLowerCase p) \<or> (\<exists>w \<in> set ps. x \<in> set (capitalize w))"
    by (auto simp: toPropName_def)
  then show ?thesis
  proof
    assume "x \<in> set (toLowerCase p)"
    then have "x \<in> set p \<or> isWordChar x"
      using in_toLowerCase [of x p] letter_isWordChar by blast
    then show ?thesis using piece [of p x] strip sp by auto
  next
    assume "\<exists>w \<in> set ps. x \<in> set (capitalize w)"
    then obtain w where w: "w \<in> set ps" "x \<in> set (capitalize w)" by blast
    then have "x \<in> set w \<or> isWordChar x" using in_capitalize by blast
    then show ?thesis using piece [of w x] strip sp w(1) by auto
  qed
qed

lemma in_prop_names:
  assumes "p \<in> set (extractProps n)" and "x \<in> set (prop_name p)"
  shows "isWordChar x \<or> isSpace x \<or> x = CHR ''-''"
proof -
  have fixed: "isWordChar y"
    if "y \<in> set ''text'' \<or> y \<in> set ''variant'' \<or> y \<in> set ''onClick'' \<or> y \<in> set ''children'' \<or>
        y \<in> set ''className''" for y
    using that by (auto simp: isWordChar_def upperAlphabet_def lowerAlphabet_def)
  from assms have "x \<in> set (toPropName (node_name n)) \<or> x \<in> set ''text'' \<or>
      x \<in> set ''variant'' \<or> x \<in> set ''onClick'' \<or> x \<in> set ''children'' \<or> x \<in> set ''className''"
    unfolding extractProps_def
    by (auto simp: Let_def split: option.splits if_splits)
  then show ?thesis using in_toPropName [of x "node_name n"] fixed [of x] by blast
qed

lemma extractProps_nonempty: "extractProps n \<noteq> []"
  by (simp add: extractProps_def)

lemma includesStr_skip:
  "c \<notin> set xs \<Longrightarrow> includesStr (xs @ ys) (c # w) = includesStr ys (c # w)"
  by (induction xs) auto

lemma includesStr_free: "c \<notin> set xs \<Longrightarrow> \<not> includesStr xs (c # w)"
  using includesStr_skip [of c xs "[]" w] by simp

lemma noMatch_skip:
  assumes "\<And>c cs. c \<noteq> CHR ''<'' \<Longrightarrow> m (c # cs) = None" and "CHR ''<'' \<notin> set xs"
  shows "noMatch m (xs @ ys) = noMatch m ys"
  using assms(2) by (induction xs) (auto simp: assms(1))


lemma openTag_needs_lt: "c \<noteq> CHR ''<'' \<Longrightarrow> openTag (CHR ''<'' # tag) (c # cs) = None"
  by (simp add: openTag_def)

lemma divElement_needs_lt: "c \<noteq> CHR ''<'' \<Longrightarrow> divElement (c # cs) = None"
  by (simp add: divElement_def openTag_def)

lemma openTag_other_tag:
  "c \<noteq> d \<Longrightarrow> openTag (CHR ''<'' # d # tag) (CHR ''<'' # c # cs) = None"
  by (simp add: openTag_def)

lemma divElement_other_tag: "c \<noteq> CHR ''d'' \<Longrightarrow> divElement (CHR ''<'' # c # cs) = None"
  by (simp add: divElement_def openTag_def)

lemma text_markup_shape:
  assumes "convertFigmaStylesToTailwind n = Inr classes"
  shows \<open>\<exists>X. jsx (textResult n classes) = CHR ''<'' # CHR ''p'' # X @ ''</p>'' \<and> CHR ''<'' \<notin> set X\<close>
proof -
  define pname where "pname =
    (case extractProps n of [] \<Rightarrow> ''text''
     | p # _ \<Rightarrow> (if prop_name p = [] then ''text'' else prop_name p))"
  define X where \<open>X = '' className="'' @ join '' '' classes @ ''">{'' @ pname @ ''}''\<close>
  have M: "jsx (textResult n classes) = CHR ''<'' # CHR ''p'' # X @ ''</p>''"
    by (simp add: textResult_def Let_def X_def pname_def)
  have ltJ: "CHR ''<'' \<notin> set (join '' '' classes)"
    using in_join_classes [OF convert_chars [OF assms], of "CHR ''<''"]
    by (auto simp: classChar_iff)
  have plain: "\<not> (isWordChar (CHR ''<'') \<or> isSpace (CHR ''<'') \<or> CHR ''<'' = CHR ''-'')"
    by (simp add: isWordChar_def isSpace_def upperAlphabet_def lowerAlphabet_def decimalDigits_def)
  have ltP: "CHR ''<'' \<notin> set pname"
  proof (cases "extractProps n")
    case Nil
    then show ?thesis by (simp add: pname_def)
  next
    case (Cons p ps)
    then have "p \<in> set (extractProps n)" by simp
    then have "CHR ''<'' \<notin> set (prop_name p)"
      using in_prop_names [of p n "CHR ''<''"] plain by blast
    with Cons show ?thesis by (simp add: pname_def)
  qed
  have "CHR ''<'' \<notin> set X"
    using ltJ ltP by (simp add: X_def)
  with M show ?thesis by blast
qed

lemma noMatch_p_element:
  assumes lt: "\<And>c cs. c \<noteq> CHR ''<'' \<Longrightarrow> m (c # cs) = None"
    and p: "\<And>t. m (CHR ''<'' # CHR ''p'' # t) = None"
    and sl: "\<And>t. m (CHR ''<'' # CHR ''/'' # t) = None"
    and X: "CHR ''<'' \<notin> set X"
  shows "noMatch m (CHR ''<'' # CHR ''p'' # X @ ''</p>'')"
proof -
  have "noMatch m ((CHR ''p'' # X) @ ''</p>'') = noMatch m ''</p>''"
    by (rule noMatch_skip) (use lt X in auto)
  moreover have "noMatch m ''</p>''"
    by (simp add: sl lt)
  ultimately show ?thesis by (simp add: p)
qed

lemma includes_p_element:
  assumes "CHR ''<'' \<notin> set X" and "c \<noteq> CHR ''p''" and "c \<noteq> CHR ''/''"
  shows "\<not> includesStr (CHR ''<'' # CHR ''p'' # X @ ''</p>'') (CHR ''<'' # c # w)"
proof -
  have "includesStr ((CHR ''p'' # X) @ ''</p>'') (CHR ''<'' # c # w) =
        includesStr ''</p>'' (CHR ''<'' # c # w)"
    by (rule includesStr_skip) (use assms in auto)
  then show ?thesis using assms by simp
qed

text \<open>
  C9. For every node of type TEXT whose translation returns, the emitted markup is a
  paragraph element \<open><p ...>...</p>\<close> with no other \<open><\<close> in it; the first block of the
  Accessibility Rewriter (heading promotion, which rewrites \<open><div>\<close> elements only) leaves
  it unchanged, and so does the whole of \<open>enhanceWithAccessibility\<close>: the markup of a TEXT
  node never becomes a heading element, whatever the font size.
\<close>

theorem text_markup_never_promoted:
  assumes "node_type n = ''TEXT''" and "figmaNodeToJSX n level = Inr r"
  shows \<open>(\<exists>X. jsx r = ''<p'' @ X @ ''</p>'' \<and> CHR ''<'' \<notin> set X) \<and>
         headingPass (jsx r) n = jsx r \<and>
         enhanceWithAccessibility (jsx r) n = jsx r\<close>
proof -
  from assms obtain classes where conv: "convertFigmaStylesToTailwind n = Inr classes"
    and r: "r = textResult n classes"
    by (auto simp: figmaNodeToJSX_text split: sum.splits)
  from text_markup_shape [OF conv] obtain X where
    M: "jsx r = CHR ''<'' # CHR ''p'' # X @ ''</p>''" and X: "CHR ''<'' \<notin> set X"
    unfolding r by blast
  have div: "noMatch divElement (jsx r)"
    unfolding M by (rule noMatch_p_element) (simp_all add: divElement_needs_lt divElement_other_tag X)
  have tag: "noMatch (openTag ''<div'') (jsx r)"
    unfolding M by (rule noMatch_p_element) (simp_all add: openTag_needs_lt openTag_other_tag X)
  have inc: "\<not> includesStr (jsx r) ''<img''" "\<not> includesStr (jsx r) ''<Image''"
    "\<not> includesStr (jsx r) ''<button''" "\<not> includesStr (jsx r) ''<input''"
    unfolding M using X by (simp_all add: includes_p_element del: includesStr.simps)
  have h: "headingPass (jsx r) n = jsx r"
    by (simp add: headingPass_def Let_def replaceAll_noMatch [OF div] split: option.splits)
  have i: "imagePass (jsx r) n = jsx r"
    by (simp add: imagePass_def Let_def inc replaceAll_noMatch [OF tag])
  have b: "buttonPass (jsx r) n = jsx r"
    by (simp add: buttonPass_def inc replaceAll_noMatch [OF tag] replaceAll_onClick_id)
  have f: "inputPass (jsx r) n = jsx r"
    by (simp add: inputPass_def Let_def inc replaceAll_noMatch [OF div])
  have "\<exists>X. jsx r = ''<p'' @ X @ ''</p>'' \<and> CHR ''<'' \<notin> set X"
    using M X by auto
  then show ?thesis
    by (simp add: enhanceWithAccessibility_def h i b f)
qed

lemma headline_translation:
  \<open>figmaNodeToJSX exHeadline 0 =
     Inr \<lparr>jsx = ''<p className="text-4xl">{headline}</p>'', imports' = [],
          props = [\<lparr>prop_name = ''headline'', prop_type = ''string'',
                     defaultValue = Some ''"Welcome"'',
                     description = Some ''Text content for Headline''\<rparr>,
                   \<lparr>prop_name = ''className'', prop_type = ''string'', defaultValue = None,
                     description = Some ''Additional CSS classes to apply''\<rparr>]\<rparr>\<close>
  by code_simp

lemma headline_facts:
  "node_type exHeadline = ''TEXT''" "hasText exHeadline"
  "geNum (fontSize (the (style exHeadline))) 16"
  by code_simp+

theorem text_markup_never_promoted_witness:
  \<open>hasText exHeadline \<and> geNum (fontSize (the (style exHeadline))) 16 \<and>
   headingPass ''<p className="text-4xl">{headline}</p>'' exHeadline =
     ''<p className="text-4xl">{headline}</p>'' \<and>
   enhanceWithAccessibility ''<p className="text-4xl">{headline}</p>'' exHeadline =
     ''<p className="text-4xl">{headline}</p>''\<close>
  using text_markup_never_promoted [OF headline_facts(1) headline_translation] headline_facts(2,3)
  by simp













section \<open>The markup of a generic container\<close>

lemma translation_starts_with_lt:
  assumes "figmaNodeToJSX n level = Inr r"
  shows "\<exists>t. jsx r = CHR ''<'' # t"
proof -
  consider (isText) "node_type n = ''TEXT''"
    | (isShape) "node_type n \<noteq> ''TEXT''" "node_type n \<in> set shapeTypes"
    | (isContainer) "node_type n \<in> set containerTypes"
    | (isImage) "node_type n = ''IMAGE''"
    | (isOther) "node_type n \<noteq> ''TEXT''" "node_type n \<notin> set shapeTypes"
        "node_type n \<notin> set containerTypes" "node_type n \<noteq> ''IMAGE''"
    by blast
  then show ?thesis
  proof cases
    case isText
    with assms show ?thesis
      by (auto simp: figmaNodeToJSX_text textResult_def Let_def split: sum.splits)
  next
    case isShape
    with assms show ?thesis
      by (auto simp: figmaNodeToJSX_shape shapeResult_def split: sum.splits)
  next
    case isContainer
    with assms show ?thesis
      by (auto simp: figmaNodeToJSX_container containerResult_def Let_def
          split: sum.splits if_splits)
  next
    case isImage
    with assms show ?thesis
      by (auto simp: figmaNodeToJSX_image imageResult_def split: sum.splits)
  next
    case isOther
    with assms show ?thesis
      by (auto simp: figmaNodeToJSX_default defaultResult_def)
  qed
qed

lemma repeat_Suc: "repeat s (Suc k) = s @ repeat s k"
  by (simp add: repeat_def)

lemma repeat_0: "repeat s 0 = []"
  by (simp add: repeat_def)

lemma childrenMarkup_start:
  assumes "rs \<noteq> []" and "\<forall>cr \<in> set rs. \<exists>t. jsx cr = CHR ''<'' # t"
  shows "\<exists>c t. childrenMarkup level rs = CHR ''\<newline>'' # CHR '' '' # CHR '' '' # c # t \<and>
           (c = CHR '' '' \<or> c = CHR ''<'')"
proof -
  from assms(1) obtain cr rs' where rs: "rs = cr # rs'" by (cases rs) auto
  with assms(2) obtain t where t: "jsx cr = CHR ''<'' # t" by auto
  show ?thesis
  proof (cases level)
    case 0
    then show ?thesis
      by (simp add: childrenMarkup_def rs t repeat_Suc repeat_0)
  next
    case (Suc k)
    then show ?thesis
      by (simp add: childrenMarkup_def rs repeat_Suc)
  qed
qed

lemma divOpening_chars:
  assumes "convertFigmaStylesToTailwind n = Inr classes"
  shows "CHR ''\<newline>'' \<notin> set (join '' '' classes @ '' '' @ classNameOf n)"
    and "CHR ''{'' \<notin> set (node_name n) \<Longrightarrow> CHR ''{'' \<notin> set (divOpening n classes)"
proof -
  have j: "x \<notin> set (join '' '' classes)" if "x = CHR ''\<newline>'' \<or> x = CHR ''{''" for x
    using in_join_classes [OF convert_chars [OF assms], of x] that
    by (auto simp: classChar_iff)
  have nl: "CHR ''\<newline>'' \<notin> set (classNameOf n)"
    using in_classNameOf [of "CHR ''\<newline>''" n]
    by (auto simp: lowerAlphabet_def isSpace_def)
  show "CHR ''\<newline>'' \<notin> set (join '' '' classes @ '' '' @ classNameOf n)"
    using j nl by simp
  assume "CHR ''{'' \<notin> set (node_name n)"
  then have "CHR ''{'' \<notin> set (classNameOf n)"
    using in_classNameOf [of "CHR ''{''" n] by (auto simp: lowerAlphabet_def)
  then show "CHR ''{'' \<notin> set (divOpening n classes)"
    using j by (simp add: divOpening_def)
qed

lemma placeholder_markup_excludes_children:
  assumes A: "CHR ''\<newline>'' \<notin> set A"
    and W: "W = CHR ''\<newline>'' # CHR '' '' # CHR '' '' # c # t" and c: "c = CHR '' '' \<or> c = CHR ''<''"
  shows \<open>\<not> includesStr (''<div \<newline>  className="'' @ A @ ''"\<newline>>'' @ ''{children}'' @ ''</div>'') W\<close>
proof -
  let ?P3 = "''>{children}</div>''"
  let ?P2 = \<open>''  className="'' @ A @ ''"''\<close>
  have whole: \<open>''<div \<newline>  className="'' @ A @ ''"\<newline>>'' @ ''{children}'' @ ''</div>'' =
      ''<div '' @ (CHR ''\<newline>'' # ?P2 @ (CHR ''\<newline>'' # ?P3))\<close>
    by simp
  have p3: "\<not> includesStr (CHR ''\<newline>'' # ?P3) W"
  proof -
    have "\<not> includesStr ?P3 W"
      unfolding W by (rule includesStr_free) simp
    moreover have "\<not> startsWith (CHR ''\<newline>'' # ?P3) W"
      by (simp add: W)
    ultimately show ?thesis by (simp del: startsWith.simps)
  qed
  have p2: "\<not> includesStr (?P2 @ (CHR ''\<newline>'' # ?P3)) W"
  proof -
    have "includesStr (?P2 @ (CHR ''\<newline>'' # ?P3)) W = includesStr (CHR ''\<newline>'' # ?P3) W"
      unfolding W by (rule includesStr_skip) (use A in simp)
    with p3 show ?thesis by simp
  qed
  have s2: "\<not> startsWith (CHR ''\<newline>'' # ?P2 @ (CHR ''\<newline>'' # ?P3)) W"
    using c by (auto simp: W)
  have "\<not> includesStr (CHR ''\<newline>'' # ?P2 @ (CHR ''\<newline>'' # ?P3)) W"
    using p2 s2 by (simp del: startsWith.simps append.simps)
  moreover have "includesStr (''<div '' @ (CHR ''\<newline>'' # ?P2 @ (CHR ''\<newline>'' # ?P3))) W =
      includesStr (CHR ''\<newline>'' # ?P2 @ (CHR ''\<newline>'' # ?P3)) W"
    unfolding W by (rule includesStr_skip) simp
  ultimately show ?thesis unfolding whole by blast
qed

lemma list_all2_right:
  "list_all2 P xs ys \<Longrightarrow> y \<in> set ys \<Longrightarrow> \<exists>x \<in> set xs. P x y"
  by (induction rule: list_all2_induct) auto

text \<open>
  C3 (as the code has it). For a container node with at least one child that is not
  button-like and whose translation returns, a "children" property is extracted exactly
  when the name has a container keyword. In that case the markup is the opening tag,
  then the child-content placeholder and nothing else, then the closing tag, and the
  translated children markup does not occur in it. Otherwise the markup is the opening
  tag, then exactly the translated children markup, then the closing tag. The opening
  tag itself holds no placeholder unless the node's name has a brace in it; so never
  both, and in the second case a placeholder can only come with a child's own markup.
\<close>

theorem container_children_either_or:
  assumes "node_type n \<in> set containerTypes" and "children n \<noteq> []"
    and "\<not> looksLikeButton n" and "figmaNodeToJSX n level = Inr r"
  shows "\<exists>classes rs.
     convertFigmaStylesToTailwind n = Inr classes \<and>
     list_all2 (\<lambda>child cr. figmaNodeToJSX child (level + 1) = Inr cr) (children n) rs \<and>
     hasChildrenProp (extractProps n) = containerLikeName n \<and>
     (if containerLikeName n
      then jsx r = divOpening n classes @ ''{children}'' @ ''</div>'' \<and>
           \<not> includesStr (jsx r) (childrenMarkup level rs)
      else jsx r = divOpening n classes @ childrenMarkup level rs @ ''</div>'') \<and>
     (CHR ''{'' \<notin> set (node_name n) \<longrightarrow> \<not> includesStr (divOpening n classes) ''{children}'')"
proof -
  from assms(1) have nt: "node_type n \<noteq> ''TEXT''"
    by (auto simp: containerTypes_def)
  from assms obtain classes cj im ap where
    conv: "convertFigmaStylesToTailwind n = Inr classes"
    and loop: "childrenLoop (children n) level ([], [], []) = Inr (cj, im, ap)"
    and r: "r = containerResult n classes (cj @ ''\<newline>'' @ repeat ''  '' level) im ap"
    by (auto simp: figmaNodeToJSX_container split: sum.splits)
  from childrenLoop_results [OF loop] obtain rs where
    rs: "list_all2 (\<lambda>child cr. figmaNodeToJSX child (level + 1) = Inr cr) (children n) rs"
    and cj: "cj = concat (map (\<lambda>cr. ''\<newline>'' @ repeat ''  '' (level + 1) @ jsx cr) rs)"
    by auto
  have cm: "cj @ CHR ''\<newline>'' # repeat ''  '' level = childrenMarkup level rs"
    by (simp add: cj childrenMarkup_def)
  have hcp: "hasChildrenProp (extractProps n) = containerLikeName n"
    using assms(2) by (simp add: hasChildrenProp_extractProps [OF nt])
  have jsx_r: "jsx r = divOpening n classes @
      (if containerLikeName n then ''{children}'' else childrenMarkup level rs) @ ''</div>''"
    using assms(3) by (simp add: r containerResult_def Let_def hcp cm divOpening_def)
  have rs_ne: "rs \<noteq> []"
    using rs assms(2) by auto
  have starts: "\<forall>cr \<in> set rs. \<exists>t. jsx cr = CHR ''<'' # t"
  proof
    fix cr assume "cr \<in> set rs"
    then obtain child where "figmaNodeToJSX child (level + 1) = Inr cr"
      using list_all2_right [OF rs] by blast
    then show "\<exists>t. jsx cr = CHR ''<'' # t" by (rule translation_starts_with_lt)
  qed
  from childrenMarkup_start [OF rs_ne starts, of level] obtain c t where
    W: "childrenMarkup level rs = CHR ''\<newline>'' # CHR '' '' # CHR '' '' # c # t"
    and c: "c = CHR '' '' \<or> c = CHR ''<''"
    by blast
  have excl: "\<not> includesStr (jsx r) (childrenMarkup level rs)" if "containerLikeName n"
  proof -
    have eq: "jsx r = ''<div \<newline>  className=\"'' @ (join '' '' classes @ '' '' @ classNameOf n) @
        ''\"\<newline>>'' @ ''{children}'' @ ''</div>''"
      using that by (simp add: jsx_r divOpening_def)
    show ?thesis
      unfolding eq
      by (rule placeholder_markup_excludes_children [OF divOpening_chars(1) [OF conv] W c])
  qed
  have own: "CHR ''{'' \<notin> set (node_name n) \<longrightarrow> \<not> includesStr (divOpening n classes) ''{children}''"
    using divOpening_chars(2) [OF conv] includesStr_free [of "CHR ''{''" "divOpening n classes"]
    by blast
  have either: "if containerLikeName n
      then jsx r = divOpening n classes @ ''{children}'' @ ''</div>'' \<and>
           \<not> includesStr (jsx r) (childrenMarkup level rs)
      else jsx r = divOpening n classes @ childrenMarkup level rs @ ''</div>''"
  proof (cases "containerLikeName n")
    case True
    with jsx_r excl show ?thesis by (simp del: includesStr.simps)
  next
    case False
    with jsx_r show ?thesis by simp
  qed
  show ?thesis
  proof (intro exI conjI)
    show "convertFigmaStylesToTailwind n = Inr classes" by (rule conv)
    show "list_all2 (\<lambda>child cr. figmaNodeToJSX child (level + 1) = Inr cr) (children n) rs"
      by (rule rs)
    show "hasChildrenProp (extractProps n) = containerLikeName n" by (rule hcp)
    show "if containerLikeName n
      then jsx r = divOpening n classes @ ''{children}'' @ ''</div>'' \<and>
           \<not> includesStr (jsx r) (childrenMarkup level rs)
      else jsx r = divOpening n classes @ childrenMarkup level rs @ ''</div>''"
      by (rule either)
    show "CHR ''{'' \<notin> set (node_name n) \<longrightarrow>
          \<not> includesStr (divOpening n classes) ''{children}''"
      by (rule own)
  qed
qed

lemma card_container_facts:
  "node_type exCardContainer \<in> set containerTypes" "children exCardContainer \<noteq> []"
  "\<not> looksLikeButton exCardContainer" "containerLikeName exCardContainer"
  "\<not> isl (figmaNodeToJSX exCardContainer 0)"
  "CHR ''{'' \<notin> set (node_name exCardContainer)"
  by code_simp+

theorem container_children_either_or_witness:
  "\<exists>classes rs.
     convertFigmaStylesToTailwind exCardContainer = Inr classes \<and>
     list_all2 (\<lambda>child cr. figmaNodeToJSX child (0 + 1) = Inr cr) (children exCardContainer) rs \<and>
     jsx (projr (figmaNodeToJSX exCardContainer 0)) =
       divOpening exCardContainer classes @ ''{children}'' @ ''</div>'' \<and>
     \<not> includesStr (jsx (projr (figmaNodeToJSX exCardContainer 0))) (childrenMarkup 0 rs) \<and>
     \<not> includesStr (divOpening exCardContainer classes) ''{children}''"
proof -
  have "figmaNodeToJSX exCardContainer 0 = Inr (projr (figmaNodeToJSX exCardContainer 0))"
    using card_container_facts(5) by (cases "figmaNodeToJSX exCardContainer 0") auto
  from container_children_either_or
    [OF card_container_facts(1) card_container_facts(2) card_container_facts(3) this]
  obtain classes where "\<exists>rs.
     convertFigmaStylesToTailwind exCardContainer = Inr classes \<and>
     list_all2 (\<lambda>child cr. figmaNodeToJSX child (0 + 1) = Inr cr) (children exCardContainer) rs \<and>
     hasChildrenProp (extractProps exCardContainer) = containerLikeName exCardContainer \<and>
     (if containerLikeName exCardContainer
      then jsx (projr (figmaNodeToJSX exCardContainer 0)) =
             divOpening exCardContainer classes @ ''{children}'' @ ''</div>'' \<and>
           \<not> includesStr (jsx (projr (figmaNodeToJSX exCardContainer 0))) (childrenMarkup 0 rs)
      else jsx (projr (figmaNodeToJSX exCardContainer 0)) =
             divOpening exCardContainer classes @ childrenMarkup 0 rs @ ''</div>'') \<and>
     (CHR ''{'' \<notin> set (node_name exCardContainer) \<longrightarrow>
        \<not> includesStr (divOpening exCardContainer classes) ''{children}'')" ..
  then obtain rs where all:
    "convertFigmaStylesToTailwind exCardContainer = Inr classes \<and>
     list_all2 (\<lambda>child cr. figmaNodeToJSX child (0 + 1) = Inr cr) (children exCardContainer) rs \<and>
     hasChildrenProp (extractProps exCardContainer) = containerLikeName exCardContainer \<and>
     (if containerLikeName exCardContainer
      then jsx (projr (figmaNodeToJSX exCardContainer 0)) =
             divOpening exCardContainer classes @ ''{children}'' @ ''</div>'' \<and>
           \<not> includesStr (jsx (projr (figmaNodeToJSX exCardContainer 0))) (childrenMarkup 0 rs)
      else jsx (projr (figmaNodeToJSX exCardContainer 0)) =
             divOpening exCardContainer classes @ childrenMarkup 0 rs @ ''</div>'') \<and>
     (CHR ''{'' \<notin> set (node_name exCardContainer) \<longrightarrow>
        \<not> includesStr (divOpening exCardContainer classes) ''{children}'')" ..
  note c1 = all [THEN conjunct1]
  note c2 = all [THEN conjunct2, THEN conjunct1]
  note c4 = all [THEN conjunct2, THEN conjunct2, THEN conjunct2, THEN conjunct1,
      unfolded if_P [OF card_container_facts(4)]]
  note c5 = all [THEN conjunct2, THEN conjunct2, THEN conjunct2, THEN conjunct2,
      THEN mp, OF card_container_facts(6)]
  show ?thesis
    by (intro exI conjI) (rule c1 c2 c4 [THEN conjunct1] c4 [THEN conjunct2] c5)+
qed

text \<open>
  C3 (as stated) fails in its second half: the frame "Card" has no container keyword and
  one child, the frame "Card Container" with a text child. Its markup inlines the
  translated child, and the child's markup is a placeholder element, so the markup of
  "Card" does contain the child-content placeholder.
\<close>

theorem inlined_child_placeholder_counterexample:
  \<open>node_type exOuterCard = ''FRAME'' \<and> children exOuterCard = [exCardContainer] \<and>
   \<not> containerLikeName exOuterCard \<and> \<not> looksLikeButton exOuterCard \<and>
   (case figmaNodeToJSX exOuterCard 0 of Inl e \<Rightarrow> [] | Inr r \<Rightarrow> jsx r) =
     ''<div \<newline>  className=" card"\<newline>>\<newline>  <div \<newline>  className=" card-container"\<newline>>{children}</div>\<newline></div>'' \<and>
   includesStr (case figmaNodeToJSX exOuterCard 0 of Inl e \<Rightarrow> [] | Inr r \<Rightarrow> jsx r) ''{children}''\<close>
  by code_simp

end
